theory Spec2Isabelle
  imports Main
begin

section \<open>The emergency server of AlphaAnalyzer (server/emergency-python-server.py)\<close>

text \<open>
  The program is one Python script: a request handler class \<open>AlfalyzerHandler\<close>
  (a subclass of the standard library's \<open>SimpleHTTPRequestHandler\<close>), the helper
  \<open>try_port\<close>, the bind loop \<open>start_server\<close> and the script's main block.

  The handler methods are embedded as functions that return the list of calls they make
  on the base class (\<open>send_response\<close>, \<open>send_header\<close>, \<open>end_headers\<close>,
  \<open>wfile.write\<close>, \<open>super().do_GET()\<close>), in program order. The bind loop is embedded
  as a function from a description of the outside world (which sockets can be opened,
  which connections arrive, which exception ends \<open>serve_forever\<close>) to the list of events
  of the process and the way it ends.
\<close>

subsection \<open>Request targets: \<open>urllib.parse.urlparse\<close>\<close>

text \<open>
  \<open>do_GET\<close> starts with \<open>urlparse(self.path)\<close>. The function belongs to the Python
  standard library; it is written out here after \<open>urllib/parse.py\<close> of CPython 3.11
  (\<open>urlsplit\<close>, \<open>_splitnetloc\<close>, \<open>urlparse\<close>, \<open>_splitparams\<close>), for a \<open>str\<close>
  argument and the default arguments \<open>scheme=''\<close>, \<open>allow_fragments=True\<close>.
  \<open>self.path\<close> is decoded from the request line as ISO-8859-1, so its characters are
  the 256 values of \<open>char\<close>.
\<close>

datatype handler_error = ValueError

record parse_result =
  scheme :: string
  netloc :: string
  path :: string
  params :: string
  query :: string
  fragment :: string

definition scheme_chars :: string where
  "scheme_chars =
     ''abcdefghijklmnopqrstuvwxyz'' @ ''ABCDEFGHIJKLMNOPQRSTUVWXYZ'' @ ''0123456789'' @ ''+-.''"

definition uses_params :: "string list" where
  "uses_params = ['''', ''ftp'', ''hdl'', ''prospero'', ''http'', ''imap'',
                  ''https'', ''shttp'', ''rtsp'', ''rtspu'', ''sip'', ''sips'',
                  ''mms'', ''sftp'', ''tel'']"

text \<open>\<open>_WHATWG_C0_CONTROL_OR_SPACE\<close>: the characters \<open>\x00\<close> to \<open>\x1f\<close> and the space.\<close>

definition c0_control_or_space :: "char \<Rightarrow> bool" where
  "c0_control_or_space c = ((of_char c :: nat) \<le> 32)"

text \<open>\<open>_UNSAFE_URL_BYTES_TO_REMOVE = ['\t', '\r', '\n']\<close>.\<close>

definition unsafe_url_byte :: "char \<Rightarrow> bool" where
  "unsafe_url_byte c = (c = CHR 0x09 \<or> c = CHR 0x0D \<or> c = CHR 0x0A)"

text \<open>\<open>c.isascii() and c.isalpha()\<close>.\<close>

definition ascii_alpha :: "char \<Rightarrow> bool" where
  "ascii_alpha c =
     (c \<in> set (''abcdefghijklmnopqrstuvwxyz'' @ ''ABCDEFGHIJKLMNOPQRSTUVWXYZ''))"

text \<open>\<open>str.lower\<close>, on the characters a scheme can hold (only A to Z change).\<close>

definition lower_char :: "char \<Rightarrow> char" where
  "lower_char c =
     (if c \<in> set ''ABCDEFGHIJKLMNOPQRSTUVWXYZ'' then char_of (of_char c + (32::nat)) else c)"

text \<open>\<open>s.split(d, 1)\<close> for a string \<open>s\<close> that contains \<open>d\<close>: the text before the
  first \<open>d\<close> and the text after it.\<close>

definition split1 :: "char \<Rightarrow> string \<Rightarrow> string \<times> string" where
  "split1 d s = (takeWhile (\<lambda>c. c \<noteq> d) s, drop 1 (dropWhile (\<lambda>c. c \<noteq> d) s))"

text \<open>\<open>_splitnetloc(url, 2)\<close>: the network location runs from index 2 to the first of
  \<open>/\<close>, \<open>?\<close>, \<open>#\<close>, or to the end.\<close>

definition netloc_delim :: "char \<Rightarrow> bool" where
  "netloc_delim c = (c = CHR ''/'' \<or> c = CHR ''?'' \<or> c = CHR ''#'')"

definition splitnetloc :: "string \<Rightarrow> string \<times> string" where
  "splitnetloc url =
     (takeWhile (\<lambda>c. \<not> netloc_delim c) (drop 2 url),
      dropWhile (\<lambda>c. \<not> netloc_delim c) (drop 2 url))"

text \<open>
  \<open>urlsplit\<close>. Two of its checks of a network location call into other library
  modules and are parameters here: \<open>bracketed_host_ok h\<close> says that
  \<open>_check_bracketed_host(h)\<close> returns (it parses \<open>h\<close> as an IP address), and
  \<open>nfkc_ok n\<close> says that the Unicode normalisation of \<open>_checknetloc\<close> finds nothing
  in a network location \<open>n\<close> that is not ASCII. Every failed check raises
  \<open>ValueError\<close>. With no network location in the URL neither parameter is consulted.
\<close>

record netloc_checks =
  bracketed_host_ok :: "string \<Rightarrow> bool"
  nfkc_ok :: "string \<Rightarrow> bool"

text \<open>\<open>netloc.partition('[')[2].partition(']')[0]\<close>.\<close>

definition bracketed_host :: "string \<Rightarrow> string" where
  "bracketed_host nl =
     takeWhile (\<lambda>c. c \<noteq> CHR '']'') (drop 1 (dropWhile (\<lambda>c. c \<noteq> CHR ''['') nl))"

text \<open>\<open>_checknetloc\<close>: an empty or ASCII network location passes.\<close>

definition checknetloc :: "netloc_checks \<Rightarrow> string \<Rightarrow> bool" where
  "checknetloc lib nl =
     (if nl = '''' \<or> list_all (\<lambda>c. (of_char c :: nat) < 128) nl then True else nfkc_ok lib nl)"

definition split_scheme :: "string \<Rightarrow> string \<times> string" where
  "split_scheme url =
     (case url of
        [] \<Rightarrow> ('''', url)
      | c # _ \<Rightarrow>
          if CHR '':'' \<in> set url \<and> c \<noteq> CHR '':'' \<and> ascii_alpha c
             \<and> list_all (\<lambda>x. x \<in> set scheme_chars) (takeWhile (\<lambda>x. x \<noteq> CHR '':'') url)
          then (map lower_char (takeWhile (\<lambda>x. x \<noteq> CHR '':'') url),
                drop 1 (dropWhile (\<lambda>x. x \<noteq> CHR '':'') url))
          else ('''', url))"

definition urlsplit :: "netloc_checks \<Rightarrow> string \<Rightarrow> handler_error + parse_result" where
  "urlsplit lib url0 =
     (let url1 = dropWhile c0_control_or_space url0;
          url2 = filter (\<lambda>c. \<not> unsafe_url_byte c) url1;
          (sch, url3) = split_scheme url2;
          (nl, url4) = (if take 2 url3 = ''//'' then splitnetloc url3 else ('''', url3))
      in if take 2 url3 = ''//''
            \<and> ((CHR ''['' \<in> set nl \<and> CHR '']'' \<notin> set nl)
               \<or> (CHR '']'' \<in> set nl \<and> CHR ''['' \<notin> set nl))
         then Inl ValueError
         else if take 2 url3 = ''//'' \<and> CHR ''['' \<in> set nl \<and> CHR '']'' \<in> set nl
                 \<and> \<not> bracketed_host_ok lib (bracketed_host nl)
         then Inl ValueError
         else if \<not> checknetloc lib nl then Inl ValueError
         else
           let (url5, frag) = (if CHR ''#'' \<in> set url4 then split1 (CHR ''#'') url4
                               else (url4, ''''));
               (url6, qry) = (if CHR ''?'' \<in> set url5 then split1 (CHR ''?'') url5
                              else (url5, ''''))
           in Inr \<lparr>scheme = sch, netloc = nl, path = url6, params = '''',
                   query = qry, fragment = frag\<rparr>)"

text \<open>\<open>_splitparams\<close>, called with a \<open>url\<close> that contains \<open>;\<close>: the parameters start
  at the first \<open>;\<close> found from the last \<open>/\<close> on.\<close>

definition splitparams :: "string \<Rightarrow> string \<times> string" where
  "splitparams url =
     (if CHR ''/'' \<in> set url then
        let seg = rev (takeWhile (\<lambda>c. c \<noteq> CHR ''/'') (rev url));
            front = take (length url - length seg) url
        in if CHR '';'' \<in> set seg
           then (front @ takeWhile (\<lambda>c. c \<noteq> CHR '';'') seg,
                 drop 1 (dropWhile (\<lambda>c. c \<noteq> CHR '';'') seg))
           else (url, '''')
      else split1 (CHR '';'') url)"

definition urlparse :: "netloc_checks \<Rightarrow> string \<Rightarrow> handler_error + parse_result" where
  "urlparse lib url =
     (case urlsplit lib url of
        Inl e \<Rightarrow> Inl e
      | Inr r \<Rightarrow>
          if scheme r \<in> set uses_params \<and> CHR '';'' \<in> set (path r)
          then (let (u, p) = splitparams (path r) in Inr (r\<lparr>path := u, params := p\<rparr>))
          else Inr r)"

text \<open>\<open>s.startswith(prefix)\<close>.\<close>

definition startswith :: "string \<Rightarrow> string \<Rightarrow> bool" where
  "startswith s pre = (take (length pre) s = pre)"

subsection \<open>The handler: JSON values and the calls on the base class\<close>

text \<open>
  The values handed to \<open>json.dumps\<close>. A Python dict keeps its keys in insertion order,
  so an object is an association list. A float is kept as the decimal literal of the
  source: \<open>JFloat m k\<close> stands for the literal with digits \<open>m\<close> and \<open>k\<close> decimal places
  (\<open>150.25\<close> is \<open>JFloat 15025 2\<close>).
\<close>

datatype json =
    JStr string
  | JFloat int nat
  | JArr "json list"
  | JObj "(string \<times> json) list"

text \<open>
  One call of the handler on its base class. \<open>Wfile_write v\<close> is
  \<open>self.wfile.write(json.dumps(v, indent=2).encode())\<close>; \<open>Super_do_GET p\<close> is
  \<open>super().do_GET()\<close> with \<open>self.path\<close> equal to \<open>p\<close>, the static file handler of the
  library. \<open>Super_do_HEAD\<close> and \<open>Send_error\<close> are what the base class does with the
  requests this class has no method for.
\<close>

datatype action =
    Send_response nat
  | Send_header string string
  | End_headers
  | Wfile_write json
  | Super_do_GET string
  | Super_do_HEAD string
  | Send_error nat

text \<open>What the handler reads from the runtime: the clock and the \<open>sys\<close> module.\<close>

record runtime =
  now_utc :: string       \<comment> \<open>\<open>time.strftime('%Y-%m-%dT%H:%M:%SZ', time.gmtime())\<close>\<close>
  sys_version :: string   \<comment> \<open>\<open>sys.version\<close>\<close>
  sys_platform :: string  \<comment> \<open>\<open>sys.platform\<close>\<close>
  url_checks :: netloc_checks  \<comment> \<open>the library's checks of a network location\<close>

definition health_response :: "runtime \<Rightarrow> json" where
  "health_response rt =
     JObj [(''status'', JStr ''healthy''),
           (''server'', JStr ''emergency-python-server''),
           (''timestamp'', JStr (now_utc rt)),
           (''python_version'', JStr (sys_version rt)),
           (''platform'', JStr (sys_platform rt))]"

definition stocks_data :: "json list" where
  "stocks_data =
     [JObj [(''symbol'', JStr ''AAPL''), (''price'', JFloat 15025 2), (''change'', JStr ''+2.15'')],
      JObj [(''symbol'', JStr ''GOOGL''), (''price'', JFloat 280050 2), (''change'', JStr ''-5.75'')],
      JObj [(''symbol'', JStr ''MSFT''), (''price'', JFloat 30075 2), (''change'', JStr ''+1.25'')],
      JObj [(''symbol'', JStr ''TSLA''), (''price'', JFloat 80090 2), (''change'', JStr ''+12.45'')]]"

definition stocks_response :: "runtime \<Rightarrow> json" where
  "stocks_response rt =
     JObj [(''message'', JStr ''Emergency Python server active''),
           (''data'', JArr stocks_data),
           (''timestamp'', JStr (now_utc rt)),
           (''source'', JStr ''python-emergency-server'')]"

definition not_found_response :: "string \<Rightarrow> json" where
  "not_found_response p =
     JObj [(''error'', JStr ''API endpoint not found''),
           (''path'', JStr p),
           (''server'', JStr ''emergency-python-server'')]"

definition handle_api_request :: "runtime \<Rightarrow> parse_result \<Rightarrow> action list" where
  "handle_api_request rt parsed_path =
     (let p = path parsed_path in
      [Send_response 200,
       Send_header ''Content-Type'' ''application/json'',
       Send_header ''Access-Control-Allow-Origin'' ''*'',
       Send_header ''Access-Control-Allow-Methods'' ''GET, POST, OPTIONS'',
       Send_header ''Access-Control-Allow-Headers'' ''Content-Type, Authorization'',
       End_headers]
      @ (if p = ''/api/health'' then [Wfile_write (health_response rt)]
         else if p = ''/api/stocks'' then [Wfile_write (stocks_response rt)]
         else [Send_response 404, Wfile_write (not_found_response p)]))"

text \<open>\<open>do_GET\<close>, given \<open>self.path\<close>. A \<open>ValueError\<close> of \<open>urlparse\<close> leaves the method.\<close>

definition do_GET :: "runtime \<Rightarrow> string \<Rightarrow> handler_error + action list" where
  "do_GET rt self_path =
     (case urlparse (url_checks rt) self_path of
        Inl e \<Rightarrow> Inl e
      | Inr parsed_path \<Rightarrow>
          if startswith (path parsed_path) ''/api/''
          then Inr (handle_api_request rt parsed_path)
          else if path parsed_path = ''/'' \<or> path parsed_path = ''''
               then Inr [Super_do_GET ''/index.html'']
               else Inr [Super_do_GET self_path])"

text \<open>\<open>do_OPTIONS\<close>, given \<open>self.path\<close>, which it does not read.\<close>

definition do_OPTIONS :: "string \<Rightarrow> action list" where
  "do_OPTIONS self_path =
     [Send_response 200,
      Send_header ''Access-Control-Allow-Origin'' ''*'',
      Send_header ''Access-Control-Allow-Methods'' ''GET, POST, OPTIONS'',
      Send_header ''Access-Control-Allow-Headers'' ''Content-Type, Authorization'',
      End_headers]"

text \<open>Readings of a list of calls: the status codes, the headers and the bodies, in
  the order of the calls.\<close>

fun statuses :: "action list \<Rightarrow> nat list" where
  "statuses [] = []"
| "statuses (Send_response c # as) = c # statuses as"
| "statuses (_ # as) = statuses as"

fun headers :: "action list \<Rightarrow> (string \<times> string) list" where
  "headers [] = []"
| "headers (Send_header k v # as) = (k, v) # headers as"
| "headers (_ # as) = headers as"

fun bodies :: "action list \<Rightarrow> json list" where
  "bodies [] = []"
| "bodies (Wfile_write v # as) = v # bodies as"
| "bodies (_ # as) = bodies as"

text \<open>The keys of a JSON object, and the value of a key.\<close>

fun keys :: "json \<Rightarrow> string list" where
  "keys (JObj kvs) = map fst kvs"
| "keys _ = []"

fun field :: "json \<Rightarrow> string \<Rightarrow> json option" where
  "field (JObj kvs) k = map_of kvs k"
| "field _ k = None"

subsection \<open>One connection: the handler's constructor\<close>

text \<open>
  The server instantiates \<open>AlfalyzerHandler\<close> for every connection it accepts
  (\<open>finish_request\<close> of \<open>socketserver\<close>). The constructor picks the directory to serve
  from, changes the working directory to it, and then runs the base class constructor,
  which reads the request and calls the method named after its command.
\<close>

datatype directory = Launch_dir | Dist_public | Client_public | Temp_public

text \<open>The page written by \<open>create_basic_files\<close>: its text is fixed but for
  \<open>sys.version\<close> and \<open>str(Path.cwd())\<close>.\<close>

record index_page =
  page_version :: string
  page_directory :: directory

text \<open>What the program itself changes in the filesystem.\<close>

record filesystem =
  temp_exists :: bool       \<comment> \<open>the directory \<open>temp_public\<close> exists\<close>
  temp_index :: "index_page option"  \<comment> \<open>\<open>temp_public/index.html\<close>\<close>
  cwd :: directory          \<comment> \<open>the working directory of the process\<close>

text \<open>The two directories the constructor tests. Other programs make and remove them
  (the build writes \<open>dist/public\<close>), so what the tests find is given anew for every
  connection: their state at the moment the connection's handler is constructed.\<close>

record dirs =
  dist_exists :: bool       \<comment> \<open>\<open>self.dist_path.exists()\<close>\<close>
  client_exists :: bool     \<comment> \<open>\<open>self.client_public.exists()\<close>\<close>

record connection =
  command :: string         \<comment> \<open>\<open>self.command\<close>\<close>
  target :: string          \<comment> \<open>\<open>self.path\<close>\<close>
  at_time :: string         \<comment> \<open>the clock's reading while the request is handled\<close>

datatype msg =
    Banner | Rule
  | Trying string nat
  | Not_available nat string
  | Server_active | Local_url nat | Network_url string nat | Api_url nat | Stocks_url nat
  | Ready | Press_ctrl_c
  | Stopping
  | Failed_to_bind string nat
  | Unexpected_error
  | All_failed
  | Goodbye
  | Fatal_error
  | Serving_from directory
  | Serving_from_temporary directory

datatype event =
    Print msg
  | Chdir directory                                  \<comment> \<open>\<open>os.chdir\<close>\<close>
  | Listen nat string                                \<comment> \<open>the server socket of \<open>start_server\<close> is open\<close>
  | Handled "handler_error + action list"            \<comment> \<open>one request went through the handler\<close>
  | Close nat string                                 \<comment> \<open>the \<open>with\<close> block of that socket is left\<close>

text \<open>The base class's dispatch on \<open>self.command\<close>: \<open>do_GET\<close> and \<open>do_OPTIONS\<close> are
  the methods of this class, \<open>do_HEAD\<close> is inherited, any other command is answered
  with \<open>send_error(501)\<close>.\<close>

definition handle_one_request :: "runtime \<Rightarrow> connection \<Rightarrow> handler_error + action list" where
  "handle_one_request rt c =
     (if command c = ''GET'' then do_GET (rt\<lparr>now_utc := at_time c\<rparr>) (target c)
      else if command c = ''OPTIONS'' then Inr (do_OPTIONS (target c))
      else if command c = ''HEAD'' then Inr [Super_do_HEAD (target c)]
      else Inr [Send_error 501])"

definition create_basic_files :: "runtime \<Rightarrow> filesystem \<Rightarrow> filesystem" where
  "create_basic_files rt fs =
     fs\<lparr>temp_index := Some \<lparr>page_version = sys_version rt, page_directory = cwd fs\<rparr>\<rparr>"

definition AlfalyzerHandler_init ::
    "runtime \<Rightarrow> dirs \<Rightarrow> filesystem \<Rightarrow> connection \<Rightarrow> filesystem \<times> event list" where
  "AlfalyzerHandler_init rt seen fs c =
     (let (fs1, ev) =
        (if dist_exists seen
         then (fs\<lparr>cwd := Dist_public\<rparr>, [Chdir Dist_public, Print (Serving_from Dist_public)])
         else if client_exists seen
         then (fs\<lparr>cwd := Client_public\<rparr>,
               [Chdir Client_public, Print (Serving_from Client_public)])
         else (let made = fs\<lparr>temp_exists := True\<rparr>;
                   filled = create_basic_files rt made
               in (filled\<lparr>cwd := Temp_public\<rparr>,
                   [Chdir Temp_public, Print (Serving_from_temporary Temp_public)])))
      in (fs1, ev @ [Handled (handle_one_request rt c)]))"

subsection \<open>The bind loop\<close>

text \<open>
  The exceptions the loop distinguishes: \<open>OSError\<close>, any other subclass of
  \<open>Exception\<close>, and \<open>KeyboardInterrupt\<close>, which is no subclass of \<open>Exception\<close>.
\<close>

datatype exn = OSError | Other_exception | KeyboardInterrupt

text \<open>
  What the outside world does to one (port, host) pair: whether the \<open>TCPServer\<close>
  constructor raises in \<open>try_port\<close>, whether it raises in \<open>start_server\<close>, the
  connections that arrive while \<open>serve_forever\<close> runs, each with the state of the two
  directories at its arrival, and the exception that ends
  \<open>serve_forever\<close> (\<open>None\<close>: it never returns; nothing in the program calls
  \<open>shutdown\<close>).
\<close>

record attempt =
  probe_raises :: "exn option"
  bind_raises :: "exn option"
  connections :: "(dirs \<times> connection) list"
  serve_raises :: "exn option"

record world =
  sys_rt :: runtime
  fs0 :: filesystem
  sockets :: "nat \<times> string \<Rightarrow> attempt"

definition strategies :: "(nat \<times> string) list" where
  "strategies =
     [(3001, ''127.0.0.1''),
      (3001, ''localhost''),
      (3001, ''0.0.0.0''),
      (8080, ''127.0.0.1''),
      (8080, ''localhost''),
      (8080, ''0.0.0.0''),
      (3000, ''127.0.0.1''),
      (5000, ''127.0.0.1'')]"

definition try_port :: "world \<Rightarrow> nat \<Rightarrow> string \<Rightarrow> exn + bool" where
  "try_port w port host =
     (case probe_raises (sockets w (port, host)) of
        None \<Rightarrow> Inr True
      | Some OSError \<Rightarrow> Inr False
      | Some e \<Rightarrow> Inl e)"

text \<open>\<open>serve_forever\<close>: one handler per connection, in the order of arrival. An
  exception of a handler is reported by the server and does not end the loop.\<close>

fun serve_forever ::
    "runtime \<Rightarrow> filesystem \<Rightarrow> (dirs \<times> connection) list \<Rightarrow> filesystem \<times> event list" where
  "serve_forever r fs [] = (fs, [])"
| "serve_forever r fs ((seen, c) # cs) =
     (let (fs1, ev1) = AlfalyzerHandler_init r seen fs c;
          (fs2, ev2) = serve_forever r fs1 cs
      in (fs2, ev1 @ ev2))"

text \<open>How one pass through the body of the \<open>for\<close> loop ends.\<close>

datatype flow =
    Continue          \<comment> \<open>on to the next strategy\<close>
  | Break             \<comment> \<open>the loop is left\<close>
  | Raise exn         \<comment> \<open>an exception leaves \<open>start_server\<close>\<close>
  | Serving           \<comment> \<open>\<open>serve_forever\<close> does not return\<close>

text \<open>The two outer handlers, \<open>except OSError\<close> and \<open>except Exception\<close>.\<close>

definition outer_except :: "exn \<Rightarrow> nat \<Rightarrow> string \<Rightarrow> flow \<times> event list" where
  "outer_except e port host =
     (case e of
        OSError \<Rightarrow> (Continue, [Print (Failed_to_bind host port)])
      | Other_exception \<Rightarrow> (Continue, [Print Unexpected_error])
      | KeyboardInterrupt \<Rightarrow> (Raise KeyboardInterrupt, []))"

definition active_banner :: "nat \<Rightarrow> string \<Rightarrow> event list" where
  "active_banner port host =
     [Print Server_active, Print (Local_url port), Print (Network_url host port),
      Print (Api_url port), Print (Stocks_url port), Print Rule, Print Ready,
      Print Press_ctrl_c]"

definition loop_body ::
    "world \<Rightarrow> filesystem \<Rightarrow> nat \<times> string \<Rightarrow> flow \<times> filesystem \<times> event list" where
  "loop_body w fs s =
     (case s of (port, host) \<Rightarrow>
        (case try_port w port host of
           Inl e \<Rightarrow>
             (let (f, ev) = outer_except e port host
              in (f, fs, Print (Trying host port) # ev))
         | Inr False \<Rightarrow>
             (Continue, fs, [Print (Trying host port), Print (Not_available port host)])
         | Inr True \<Rightarrow>
             (case bind_raises (sockets w s) of
                Some e \<Rightarrow>
                  (let (f, ev) = outer_except e port host
                   in (f, fs, Print (Trying host port) # ev))
              | None \<Rightarrow>
                  (let (fs1, served) = serve_forever (sys_rt w) fs (connections (sockets w s));
                       ev = [Print (Trying host port), Listen port host]
                            @ active_banner port host @ served
                   in case serve_raises (sockets w s) of
                        None \<Rightarrow> (Serving, fs1, ev)
                      | Some KeyboardInterrupt \<Rightarrow>
                          (Break, fs1, ev @ [Print Stopping, Close port host])
                      | Some e \<Rightarrow>
                          (let (f, ev') = outer_except e port host
                           in (f, fs1, ev @ Close port host # ev'))))))"

fun for_strategies ::
    "world \<Rightarrow> filesystem \<Rightarrow> (nat \<times> string) list \<Rightarrow> flow \<times> filesystem \<times> event list" where
  "for_strategies w fs [] = (Continue, fs, [])"
| "for_strategies w fs (s # ss) =
     (case loop_body w fs s of
        (Continue, fs1, ev) \<Rightarrow>
          (let (f, fs2, ev2) = for_strategies w fs1 ss in (f, fs2, ev @ ev2))
      | (f, fs1, ev) \<Rightarrow> (f, fs1, ev))"

text \<open>How \<open>start_server\<close> ends: with \<open>sys.exit\<close>, with an exception, or never.\<close>

datatype ending = SystemExit nat | Raised exn | Never_returns

definition start_server :: "world \<Rightarrow> event list \<times> ending" where
  "start_server w =
     (case for_strategies w (fs0 w) strategies of
        (Raise e, _, ev) \<Rightarrow> ([Print Banner, Print Rule] @ ev, Raised e)
      | (Serving, _, ev) \<Rightarrow> ([Print Banner, Print Rule] @ ev, Never_returns)
      | (_, _, ev) \<Rightarrow> ([Print Banner, Print Rule] @ ev @ [Print All_failed], SystemExit 1))"

text \<open>The script's main block, and the exit status of the process. A script that runs
  to its end exits with status 0.\<close>

datatype process_end = Exit_code nat | Running

definition main :: "world \<Rightarrow> event list \<times> process_end" where
  "main w =
     (case start_server w of
        (ev, Raised KeyboardInterrupt) \<Rightarrow> (ev @ [Print Goodbye], Exit_code 0)
      | (ev, Raised _) \<Rightarrow> (ev @ [Print Fatal_error], Exit_code 1)
      | (ev, SystemExit n) \<Rightarrow> (ev, Exit_code n)
      | (ev, Never_returns) \<Rightarrow> (ev, Running))"

text \<open>Readings of a list of events.\<close>

fun tried :: "event list \<Rightarrow> (nat \<times> string) list" where
  "tried [] = []"
| "tried (Print (Trying host port) # es) = (port, host) # tried es"
| "tried (_ # es) = tried es"

fun listened :: "event list \<Rightarrow> (nat \<times> string) list" where
  "listened [] = []"
| "listened (Listen port host # es) = (port, host) # listened es"
| "listened (_ # es) = listened es"

fun resolutions :: "event list \<Rightarrow> directory list" where
  "resolutions [] = []"
| "resolutions (Chdir d # es) = d # resolutions es"
| "resolutions (_ # es) = resolutions es"

fun handled :: "event list \<Rightarrow> (handler_error + action list) list" where
  "handled [] = []"
| "handled (Handled r # es) = r # handled es"
| "handled (_ # es) = handled es"

fun printed :: "event list \<Rightarrow> msg list" where
  "printed [] = []"
| "printed (Print m # es) = m # printed es"
| "printed (_ # es) = printed es"

fun is_Close :: "event \<Rightarrow> bool" where
  "is_Close (Close _ _) = True"
| "is_Close _ = False"

text \<open>The events up to the moment the server socket is closed: the time of serving.\<close>

definition while_open :: "event list \<Rightarrow> event list" where
  "while_open es = takeWhile (\<lambda>e. \<not> is_Close e) es"

subsection \<open>Notions used in the statements\<close>

text \<open>A request target that is a bare path: one leading slash, and none of the
  characters that \<open>urlparse\<close> treats specially (\<open>?\<close>, \<open>#\<close>, \<open>;\<close>, tab, CR, LF).\<close>

definition plain_path :: "string \<Rightarrow> bool" where
  "plain_path p =
     (take 1 p = ''/'' \<and> take 2 p \<noteq> ''//'' \<and>
      list_all (\<lambda>c. c \<noteq> CHR ''#'' \<and> c \<noteq> CHR ''?'' \<and> c \<noteq> CHR '';''
                     \<and> \<not> unsafe_url_byte c) p)"

definition bare :: "string \<Rightarrow> parse_result" where
  "bare p = \<lparr>scheme = [], netloc = [], path = p, params = [], query = [], fragment = []\<rparr>"

text \<open>A candidate is unavailable when its pass through the loop body ends in
  \<open>continue\<close> before a server socket is open: the test bind or the real bind raises an
  \<open>Exception\<close>. It is available when both binds succeed.\<close>

definition unavailable :: "attempt \<Rightarrow> bool" where
  "unavailable a =
     (case probe_raises a of
        Some OSError \<Rightarrow> True
      | Some Other_exception \<Rightarrow> True
      | Some KeyboardInterrupt \<Rightarrow> False
      | None \<Rightarrow> (case bind_raises a of
                   Some OSError \<Rightarrow> True
                 | Some Other_exception \<Rightarrow> True
                 | _ \<Rightarrow> False))"

definition available :: "attempt \<Rightarrow> bool" where
  "available a = (probe_raises a = None \<and> bind_raises a = None)"

text \<open>The priority order of the three candidates for the content root, as the
  specification words it: the build output directory, then the client's public
  directory, then the temporary directory.\<close>

definition content_root :: "dirs \<Rightarrow> directory" where
  "content_root seen =
     (if dist_exists seen then Dist_public
      else if client_exists seen then Client_public
      else Temp_public)"

subsection \<open>Concrete worlds\<close>

definition example_rt :: runtime where
  "example_rt =
     \<lparr>now_utc = ''2025-01-01T00:00:00Z'', sys_version = ''3.11.10'', sys_platform = ''linux'',
      url_checks = \<lparr>bracketed_host_ok = (\<lambda>h. True), nfkc_ok = (\<lambda>n. True)\<rparr>\<rparr>"

definition example_fs :: filesystem where
  "example_fs =
     \<lparr>temp_exists = False, temp_index = None, cwd = Launch_dir\<rparr>"

definition busy :: attempt where
  "busy = \<lparr>probe_raises = Some OSError, bind_raises = Some OSError, connections = [],
           serve_raises = None\<rparr>"

text \<open>Every port is taken.\<close>

definition all_busy_world :: world where
  "all_busy_world = \<lparr>sys_rt = example_rt, fs0 = example_fs, sockets = (\<lambda>s. busy)\<rparr>"

text \<open>The first candidate is free; the operator presses Ctrl+C while it serves.\<close>

definition interrupted_world :: world where
  "interrupted_world =
     \<lparr>sys_rt = example_rt, fs0 = example_fs,
      sockets = (\<lambda>s. if s = (3001, ''127.0.0.1'')
                     then \<lparr>probe_raises = None, bind_raises = None, connections = [],
                           serve_raises = Some KeyboardInterrupt\<rparr>
                     else busy)\<rparr>"

text \<open>Port 3001 is taken on every host, 8080 is free on 127.0.0.1; two requests arrive
  and the server goes on waiting. Neither directory exists when the first request
  arrives; the build has written \<open>dist/public\<close> when the second one does.\<close>

definition two_requests_world :: world where
  "two_requests_world =
     \<lparr>sys_rt = example_rt, fs0 = example_fs,
      sockets = (\<lambda>s. if s = (8080, ''127.0.0.1'')
                     then \<lparr>probe_raises = None, bind_raises = None,
                           connections =
                             [(\<lparr>dist_exists = False, client_exists = False\<rparr>,
                               \<lparr>command = ''GET'', target = ''/'',
                                at_time = ''2025-01-01T00:00:00Z''\<rparr>),
                              (\<lparr>dist_exists = True, client_exists = False\<rparr>,
                               \<lparr>command = ''OPTIONS'', target = ''/api/stocks'',
                                at_time = ''2025-01-01T00:00:05Z''\<rparr>)],
                           serve_raises = None\<rparr>
                     else busy)\<rparr>"

text \<open>Port 3001 is free on 127.0.0.1 and on localhost. The server on the first pair
  takes no request before \<open>serve_forever\<close> raises an \<open>OSError\<close>; the server on the
  second pair goes on waiting.\<close>

definition serve_error_world :: world where
  "serve_error_world =
     \<lparr>sys_rt = example_rt, fs0 = example_fs,
      sockets = (\<lambda>s. if s = (3001, ''127.0.0.1'')
                     then \<lparr>probe_raises = None, bind_raises = None, connections = [],
                           serve_raises = Some OSError\<rparr>
                     else if s = (3001, ''localhost'')
                     then \<lparr>probe_raises = None, bind_raises = None, connections = [],
                           serve_raises = None\<rparr>
                     else busy)\<rparr>"

section \<open>Properties\<close>

subsection \<open>Parsing the request targets of the examples\<close>

lemmas urlparse_eval =
  urlparse_def urlsplit_def split_scheme_def c0_control_or_space_def unsafe_url_byte_def
  ascii_alpha_def checknetloc_def uses_params_def

lemma urlparse_health: "urlparse lib ''/api/health'' = Inr (bare ''/api/health'')"
  by (simp add: urlparse_eval bare_def)

lemma urlparse_stocks: "urlparse lib ''/api/stocks'' = Inr (bare ''/api/stocks'')"
  by (simp add: urlparse_eval bare_def)

lemma urlparse_api: "urlparse lib ''/api'' = Inr (bare ''/api'')"
  by (simp add: urlparse_eval bare_def)

lemma urlparse_unknown: "urlparse lib ''/api/unknown-thing'' = Inr (bare ''/api/unknown-thing'')"
  by (simp add: urlparse_eval bare_def)

subsection \<open>The API handler\<close>

lemma api_statuses:
  "statuses (handle_api_request rt r) =
     (if path r = ''/api/health'' \<or> path r = ''/api/stocks'' then [200] else [200, 404])"
  by (simp add: handle_api_request_def Let_def)

lemma api_headers:
  "headers (handle_api_request rt r) =
     [(''Content-Type'', ''application/json''),
      (''Access-Control-Allow-Origin'', ''*''),
      (''Access-Control-Allow-Methods'', ''GET, POST, OPTIONS''),
      (''Access-Control-Allow-Headers'', ''Content-Type, Authorization'')]"
  by (simp add: handle_api_request_def Let_def)

lemma api_bodies:
  "bodies (handle_api_request rt r) =
     [if path r = ''/api/health'' then health_response rt
      else if path r = ''/api/stocks'' then stocks_response rt
      else not_found_response (path r)]"
  by (simp add: handle_api_request_def Let_def)

lemma do_GET_api:
  "urlparse (url_checks rt) url = Inr r \<Longrightarrow> startswith (path r) ''/api/'' \<Longrightarrow>
   do_GET rt url = Inr (handle_api_request rt r)"
  by (simp add: do_GET_def)

text \<open>
  C6: a GET request whose path component is \<open>/api/health\<close> is answered by the API
  handler with the single status 200, the header \<open>Content-Type: application/json\<close>,
  and one body, a JSON object with the keys \<open>status\<close>, \<open>server\<close>, \<open>timestamp\<close>,
  \<open>python_version\<close> and \<open>platform\<close>, where \<open>status\<close> is \<open>"healthy"\<close> and \<open>server\<close> is
  \<open>"emergency-python-server"\<close>.
\<close>

theorem health_endpoint:
  assumes "urlparse (url_checks rt) url = Inr r" and "path r = ''/api/health''"
  shows "do_GET rt url = Inr (handle_api_request rt r)
       \<and> statuses (handle_api_request rt r) = [200]
       \<and> map_of (headers (handle_api_request rt r)) ''Content-Type'' = Some ''application/json''
       \<and> bodies (handle_api_request rt r) = [health_response rt]
       \<and> keys (health_response rt) =
           [''status'', ''server'', ''timestamp'', ''python_version'', ''platform'']
       \<and> field (health_response rt) ''status'' = Some (JStr ''healthy'')
       \<and> field (health_response rt) ''server'' = Some (JStr ''emergency-python-server'')"
proof -
  have "startswith (path r) ''/api/''" by (simp add: assms(2) startswith_def)
  then have "do_GET rt url = Inr (handle_api_request rt r)"
    using assms(1) by (rule do_GET_api[rotated])
  then show ?thesis
    by (simp add: api_statuses api_headers api_bodies assms(2) health_response_def)
qed

text \<open>The request \<open>GET /api/health\<close> itself.\<close>

theorem health_endpoint_witness:
  "urlparse (url_checks example_rt) ''/api/health'' = Inr (bare ''/api/health'')
   \<and> path (bare ''/api/health'') = ''/api/health''
   \<and> do_GET example_rt ''/api/health'' = Inr (handle_api_request example_rt (bare ''/api/health''))
   \<and> statuses (handle_api_request example_rt (bare ''/api/health'')) = [200]
   \<and> bodies (handle_api_request example_rt (bare ''/api/health'')) = [health_response example_rt]"
proof -
  have h1: "urlparse (url_checks example_rt) ''/api/health'' = Inr (bare ''/api/health'')"
    by (rule urlparse_health)
  have h2: "path (bare ''/api/health'') = ''/api/health''" by (simp add: bare_def)
  from health_endpoint[OF h1 h2] h1 h2 show ?thesis by blast
qed


text \<open>
  C7: a GET request whose path component is \<open>/api/stocks\<close> is answered with the single
  status 200 and one body whose \<open>data\<close> field is an array of exactly four objects, each
  with the keys \<open>symbol\<close>, \<open>price\<close> and \<open>change\<close>. The array is the constant
  \<open>stocks_data\<close>: it depends neither on the request nor on the runtime, so it is the
  same for every request.
\<close>

theorem stocks_endpoint:
  assumes "urlparse (url_checks rt) url = Inr r" and "path r = ''/api/stocks''"
  shows "do_GET rt url = Inr (handle_api_request rt r)
       \<and> statuses (handle_api_request rt r) = [200]
       \<and> bodies (handle_api_request rt r) = [stocks_response rt]
       \<and> field (stocks_response rt) ''data'' = Some (JArr stocks_data)
       \<and> length stocks_data = 4
       \<and> list_all (\<lambda>obj. keys obj = [''symbol'', ''price'', ''change'']) stocks_data"
proof -
  have "startswith (path r) ''/api/''" by (simp add: assms(2) startswith_def)
  then have "do_GET rt url = Inr (handle_api_request rt r)"
    using assms(1) by (rule do_GET_api[rotated])
  moreover have "length stocks_data = 4"
    and "list_all (\<lambda>obj. keys obj = [''symbol'', ''price'', ''change'']) stocks_data"
    by (simp_all add: stocks_data_def)
  ultimately show ?thesis
    by (simp add: api_statuses api_bodies assms(2) stocks_response_def)
qed

text \<open>The request \<open>GET /api/stocks\<close> itself.\<close>

theorem stocks_endpoint_witness:
  "urlparse (url_checks example_rt) ''/api/stocks'' = Inr (bare ''/api/stocks'')
   \<and> path (bare ''/api/stocks'') = ''/api/stocks''
   \<and> do_GET example_rt ''/api/stocks'' = Inr (handle_api_request example_rt (bare ''/api/stocks''))
   \<and> bodies (handle_api_request example_rt (bare ''/api/stocks'')) = [stocks_response example_rt]
   \<and> field (stocks_response example_rt) ''data'' = Some (JArr stocks_data)"
proof -
  have h1: "urlparse (url_checks example_rt) ''/api/stocks'' = Inr (bare ''/api/stocks'')"
    by (rule urlparse_stocks)
  have h2: "path (bare ''/api/stocks'') = ''/api/stocks''" by (simp add: bare_def)
  from stocks_endpoint[OF h1 h2] h1 h2 show ?thesis by blast
qed

text \<open>
  C3: for a GET request whose path component starts with \<open>/api/\<close> and is neither
  \<open>/api/health\<close> nor \<open>/api/stocks\<close>, the handler calls \<open>send_response(200)\<close>, sends the
  JSON and CORS headers and ends the headers, then calls \<open>send_response(404)\<close>, and
  writes a JSON object with exactly the keys \<open>error\<close>, \<open>path\<close> and \<open>server\<close>: the
  fixed error text, the path component of the request, and the server's name.
\<close>

theorem unknown_api_endpoint:
  assumes "urlparse (url_checks rt) url = Inr r"
    and "startswith (path r) ''/api/''"
    and "path r \<noteq> ''/api/health''" and "path r \<noteq> ''/api/stocks''"
  shows "do_GET rt url =
           Inr [Send_response 200,
                Send_header ''Content-Type'' ''application/json'',
                Send_header ''Access-Control-Allow-Origin'' ''*'',
                Send_header ''Access-Control-Allow-Methods'' ''GET, POST, OPTIONS'',
                Send_header ''Access-Control-Allow-Headers'' ''Content-Type, Authorization'',
                End_headers,
                Send_response 404,
                Wfile_write (not_found_response (path r))]
       \<and> keys (not_found_response (path r)) = [''error'', ''path'', ''server'']
       \<and> field (not_found_response (path r)) ''error'' = Some (JStr ''API endpoint not found'')
       \<and> field (not_found_response (path r)) ''path'' = Some (JStr (path r))
       \<and> field (not_found_response (path r)) ''server'' = Some (JStr ''emergency-python-server'')"
proof -
  have "do_GET rt url = Inr (handle_api_request rt r)"
    using assms(1,2) by (rule do_GET_api)
  then show ?thesis
    using assms(3,4) by (simp add: handle_api_request_def Let_def not_found_response_def)
qed

text \<open>The request \<open>GET /api/unknown-thing\<close>.\<close>

theorem unknown_api_endpoint_witness:
  "do_GET example_rt ''/api/unknown-thing'' =
           Inr [Send_response 200,
                Send_header ''Content-Type'' ''application/json'',
                Send_header ''Access-Control-Allow-Origin'' ''*'',
                Send_header ''Access-Control-Allow-Methods'' ''GET, POST, OPTIONS'',
                Send_header ''Access-Control-Allow-Headers'' ''Content-Type, Authorization'',
                End_headers,
                Send_response 404,
                Wfile_write (not_found_response ''/api/unknown-thing'')]
   \<and> field (not_found_response ''/api/unknown-thing'') ''path''
       = Some (JStr ''/api/unknown-thing'')"
proof -
  have h1: "urlparse (url_checks example_rt) ''/api/unknown-thing''
            = Inr (bare ''/api/unknown-thing'')"
    by (rule urlparse_unknown)
  have h2: "startswith (path (bare ''/api/unknown-thing'')) ''/api/''"
    by (simp add: bare_def startswith_def)
  have h3: "path (bare ''/api/unknown-thing'') \<noteq> ''/api/health''"
    and h4: "path (bare ''/api/unknown-thing'') \<noteq> ''/api/stocks''"
    by (simp_all add: bare_def)
  have p: "path (bare ''/api/unknown-thing'') = ''/api/unknown-thing''"
    by (simp add: bare_def)
  from unknown_api_endpoint[OF h1 h2 h3 h4] show ?thesis
    unfolding p by blast
qed

text \<open>
  C8: an OPTIONS request on any path \<open>p\<close> is answered by \<open>do_OPTIONS\<close> with the single
  status 200, the three CORS headers, and no body.
\<close>

theorem options_any_path:
  "handle_one_request rt \<lparr>command = ''OPTIONS'', target = p, at_time = t\<rparr> = Inr (do_OPTIONS p)
   \<and> statuses (do_OPTIONS p) = [200]
   \<and> bodies (do_OPTIONS p) = []
   \<and> headers (do_OPTIONS p) =
       [(''Access-Control-Allow-Origin'', ''*''),
        (''Access-Control-Allow-Methods'', ''GET, POST, OPTIONS''),
        (''Access-Control-Allow-Headers'', ''Content-Type, Authorization'')]
   \<and> do_OPTIONS p =
       [Send_response 200,
        Send_header ''Access-Control-Allow-Origin'' ''*'',
        Send_header ''Access-Control-Allow-Methods'' ''GET, POST, OPTIONS'',
        Send_header ''Access-Control-Allow-Headers'' ''Content-Type, Authorization'',
        End_headers]"
  by (simp add: handle_one_request_def do_OPTIONS_def)

text \<open>
  C10: a GET request whose path component is exactly \<open>/api\<close> does not pass the prefix
  test for \<open>/api/\<close>; it is handed, unchanged, to the static file handler of the base
  class.
\<close>

theorem api_without_slash:
  assumes "urlparse (url_checks rt) url = Inr r" and "path r = ''/api''"
  shows "\<not> startswith (path r) ''/api/'' \<and> do_GET rt url = Inr [Super_do_GET url]"
  using assms by (simp add: do_GET_def startswith_def)

text \<open>The request \<open>GET /api\<close>.\<close>

theorem api_without_slash_witness:
  "\<not> startswith (path (bare ''/api'')) ''/api/''
   \<and> do_GET example_rt ''/api'' = Inr [Super_do_GET ''/api'']"
proof -
  have h1: "urlparse (url_checks example_rt) ''/api'' = Inr (bare ''/api'')"
    by (rule urlparse_api)
  have h2: "path (bare ''/api'') = ''/api''" by (simp add: bare_def)
  from api_without_slash[OF h1 h2] show ?thesis .
qed


subsection \<open>Request targets with a query string\<close>

lemma split_scheme_slash: "split_scheme (CHR ''/'' # xs) = ('''', CHR ''/'' # xs)"
  by (simp add: split_scheme_def ascii_alpha_def)

lemma split1_append:
  "list_all (\<lambda>c. c \<noteq> d) p \<Longrightarrow> split1 d (p @ d # q) = (p, q)"
  by (induction p) (simp_all add: split1_def)

lemma split1_skip:
  "list_all (\<lambda>c. c \<noteq> d) p \<Longrightarrow> e \<noteq> d \<Longrightarrow>
   split1 d (p @ e # q) = (p @ e # fst (split1 d q), snd (split1 d q))"
  by (induction p) (simp_all add: split1_def)

lemma split1_absent: "d \<notin> set q \<Longrightarrow> split1 d q = (q, [])"
  by (induction q) (auto simp: split1_def)

lemma split1_Cons_eq: "split1 d (d # q) = ([], q)"
  by (simp add: split1_def)

lemma split1_Cons_ne: "e \<noteq> d \<Longrightarrow> split1 d (e # q) = (e # fst (split1 d q), snd (split1 d q))"
  by (simp add: split1_def)

lemma normalise_plain:
  assumes "plain_path p"
  shows "filter (\<lambda>c. \<not> unsafe_url_byte c) (dropWhile c0_control_or_space (p @ r))
         = p @ filter (\<lambda>c. \<not> unsafe_url_byte c) r"
proof -
  obtain p' where p: "p = CHR ''/'' # p'"
    using assms by (cases p) (auto simp: plain_path_def)
  have "list_all (\<lambda>c. \<not> unsafe_url_byte c) p"
    using assms by (simp add: plain_path_def list_all_iff)
  then have f: "filter (\<lambda>c. \<not> unsafe_url_byte c) p = p"
    by (induction p) auto
  have "dropWhile c0_control_or_space (p @ r) = p @ r"
    by (simp add: p c0_control_or_space_def)
  then show ?thesis using f by simp
qed

lemma urlsplit_tail:
  assumes "plain_path p" and "r = [] \<or> hd r = CHR ''?''  \<or> hd r = CHR ''#''"
  shows "urlsplit nok (p @ r) =
        (let fr = filter (\<lambda>c. \<not> unsafe_url_byte c) r;
             u5 = (if CHR ''#'' \<in> set fr then fst (split1 (CHR ''#'') fr) else fr)
         in Inr \<lparr>scheme = '''', netloc = '''', path = p, params = '''',
        query = (if CHR ''?'' \<in> set u5 then snd (split1 (CHR ''?'') u5) else ''''),
        fragment = (if CHR ''#'' \<in> set fr then snd (split1 (CHR ''#'') fr) else '''')\<rparr>)"
proof -
  obtain p' where p: "p = CHR ''/'' # p'"
    using assms by (cases p) (auto simp: plain_path_def)
  define fr where "fr = filter (\<lambda>c. \<not> unsafe_url_byte c) r"
  have frh: "fr = [] \<or> hd fr = CHR ''?'' \<or> hd fr = CHR ''#''"
    using assms(2) by (cases r) (auto simp: fr_def unsafe_url_byte_def)
  have u2: "filter (\<lambda>c. \<not> unsafe_url_byte c) (dropWhile c0_control_or_space (p @ r)) = p @ fr"
    unfolding fr_def using assms(1) by (rule normalise_plain)
  have s: "split_scheme (p @ fr) = ('''', p @ fr)"
    by (simp add: p split_scheme_slash)
  have t2: "take 2 (p @ fr) \<noteq> ''//''"
    using assms(1) frh by (cases p'; cases fr; auto simp add: p plain_path_def)
  have pq: "list_all (\<lambda>c. c \<noteq> CHR ''?'') p" and ph: "list_all (\<lambda>c. c \<noteq> CHR ''#'') p"
    using assms(1) by (simp_all add: list_all_iff plain_path_def)
  have hp: "CHR ''#'' \<notin> set p" "CHR ''?'' \<notin> set p" using pq ph by (auto simp: list_all_iff)
  consider (e) "fr = []" | (q) t where "fr = CHR ''?'' # t" | (h) t where "fr = CHR ''#'' # t"
    using frh by (cases fr) auto
  then have "(let (nl, url4) = ('''', p @ fr) in 
           let (url5, frag) = (if CHR ''#'' \<in> set url4 then split1 (CHR ''#'') url4
                               else (url4, ''''));
               (url6, qry) = (if CHR ''?'' \<in> set url5 then split1 (CHR ''?'') url5
                              else (url5, ''''))
           in (Inr \<lparr>scheme = '''', netloc = nl, path = url6, params = '''',
                   query = qry, fragment = frag\<rparr> :: handler_error + parse_result)) =
        (let u5 = (if CHR ''#'' \<in> set fr then fst (split1 (CHR ''#'') fr) else fr)
         in Inr \<lparr>scheme = '''', netloc = '''', path = p, params = '''',
        query = (if CHR ''?'' \<in> set u5 then snd (split1 (CHR ''?'') u5) else ''''),
        fragment = (if CHR ''#'' \<in> set fr then snd (split1 (CHR ''#'') fr) else '''')\<rparr>)"
  proof cases
    case e
    then show ?thesis using hp by simp
  next
    case q
    show ?thesis
    proof (cases "CHR ''#'' \<in> set t")
      case True
      then show ?thesis using hp
        by (simp add: q split1_skip[OF ph] split1_append[OF pq] split1_Cons_eq split1_Cons_ne)
    next
      case False
      then show ?thesis using hp
        by (simp add: q split1_append[OF pq] split1_Cons_eq split1_Cons_ne)
    qed
  next
    case h
    then show ?thesis using hp
      by (simp add: h split1_append[OF ph] split1_Cons_eq split1_Cons_ne)
  qed
  note core = this[unfolded Let_def prod.case]
  have t2': "(take 2 (p @ fr) = ''//'') = False" using t2 by simp
  show ?thesis
    unfolding urlsplit_def Let_def u2 s prod.case fr_def[symmetric] t2'
    by (simp only: if_False if_True prod.case simp_thms core checknetloc_def)
qed


lemma urlparse_tail:
  assumes "plain_path p" and "r = [] \<or> hd r = CHR ''?''  \<or> hd r = CHR ''#''"
  shows "map_sum id path (urlparse nok (p @ r)) = Inr p"
proof -
  have "CHR '';'' \<notin> set p" using assms(1) by (auto simp: plain_path_def list_all_iff)
  then show ?thesis
    by (simp add: urlparse_def urlsplit_tail[OF assms] Let_def)
qed



lemma handle_api_path:
  "path r = path r' \<Longrightarrow> handle_api_request rt r = handle_api_request rt r'"
  by (simp add: handle_api_request_def)

lemma do_GET_plain_api:
  assumes "plain_path p" and "startswith p ''/api/''"
    and "s = [] \<or> hd s = CHR ''?'' \<or> hd s = CHR ''#''"
  shows "do_GET rt (p @ s) = Inr (handle_api_request rt (bare p))"
proof -
  from urlparse_tail[OF assms(1,3), of "url_checks rt"]
  obtain r where r: "urlparse (url_checks rt) (p @ s) = Inr r" and p: "path r = p"
    by (cases "urlparse (url_checks rt) (p @ s)") auto
  have "do_GET rt (p @ s) = Inr (handle_api_request rt r)"
    using r assms(2) p by (simp add: do_GET_api)
  moreover have "handle_api_request rt r = handle_api_request rt (bare p)"
    by (rule handle_api_path) (simp add: p bare_def)
  ultimately show ?thesis by simp
qed

lemma plain_health: "plain_path ''/api/health''"
  by (simp add: plain_path_def unsafe_url_byte_def)

lemma plain_stocks: "plain_path ''/api/stocks''"
  by (simp add: plain_path_def unsafe_url_byte_def)

text \<open>
  C9: the answer to an API request depends on the path component of the request target
  only. With any query string \<open>q\<close> appended, \<open>GET /api/health?q\<close> is answered as
  \<open>GET /api/health\<close> and \<open>GET /api/stocks?q\<close> as \<open>GET /api/stocks\<close>; the same holds
  for every bare path \<open>p\<close> under \<open>/api/\<close>, and for an unknown one the \<open>path\<close> field of
  the 404 body is \<open>p\<close>, without the query string. In general two request targets whose
  parsed paths agree and start with \<open>/api/\<close> get the same answer.
\<close>

theorem query_string_ignored:
  "do_GET rt (''/api/health'' @ ''?'' @ q) = do_GET rt ''/api/health''
   \<and> do_GET rt (''/api/stocks'' @ ''?'' @ q) = do_GET rt ''/api/stocks''
   \<and> (plain_path p \<and> startswith p ''/api/'' \<longrightarrow>
        do_GET rt (p @ ''?'' @ q) = do_GET rt p)
   \<and> (plain_path p \<and> startswith p ''/api/'' \<and> p \<noteq> ''/api/health'' \<and> p \<noteq> ''/api/stocks'' \<longrightarrow>
        map_sum id bodies (do_GET rt (p @ ''?'' @ q)) = Inr [not_found_response p]
        \<and> field (not_found_response p) ''path'' = Some (JStr p))
   \<and> (urlparse (url_checks rt) u = Inr r \<and> urlparse (url_checks rt) u' = Inr r'
        \<and> path r = path r' \<and> startswith (path r) ''/api/'' \<longrightarrow>
        do_GET rt u = do_GET rt u')"
proof -
  have q: "do_GET rt (p @ ''?'' @ q) = Inr (handle_api_request rt (bare p))"
    and n: "do_GET rt p = Inr (handle_api_request rt (bare p))"
    if "plain_path p" "startswith p ''/api/''" for p
    using do_GET_plain_api[OF that, of "''?'' @ q" rt] do_GET_plain_api[OF that, of "[]" rt]
    by simp_all
  have sh: "startswith ''/api/health'' ''/api/''" and ss: "startswith ''/api/stocks'' ''/api/''"
    by (simp_all add: startswith_def)
  have a: "do_GET rt (''/api/health'' @ ''?'' @ q) = do_GET rt ''/api/health''"
    using q[OF plain_health sh] n[OF plain_health sh] by simp
  have b: "do_GET rt (''/api/stocks'' @ ''?'' @ q) = do_GET rt ''/api/stocks''"
    using q[OF plain_stocks ss] n[OF plain_stocks ss] by simp
  have c: "plain_path p \<and> startswith p ''/api/'' \<longrightarrow> do_GET rt (p @ ''?'' @ q) = do_GET rt p"
    using q n by simp
  have d: "plain_path p \<and> startswith p ''/api/'' \<and> p \<noteq> ''/api/health'' \<and> p \<noteq> ''/api/stocks'' \<longrightarrow>
        map_sum id bodies (do_GET rt (p @ ''?'' @ q)) = Inr [not_found_response p]
        \<and> field (not_found_response p) ''path'' = Some (JStr p)"
    using q by (simp add: api_bodies bare_def not_found_response_def)
  have e: "urlparse (url_checks rt) u = Inr r \<and> urlparse (url_checks rt) u' = Inr r'
        \<and> path r = path r' \<and> startswith (path r) ''/api/'' \<longrightarrow>
        do_GET rt u = do_GET rt u'"
    using handle_api_path[of r r' rt] by (auto simp: do_GET_api)
  from a b c d e show ?thesis by blast
qed

lemma plain_unknown: "plain_path ''/api/unknown-thing''"
  by (simp add: plain_path_def unsafe_url_byte_def)

text \<open>The query string \<open>verbose=1\<close> on the three kinds of API path.\<close>

theorem query_string_ignored_witness:
  "do_GET example_rt (''/api/health'' @ ''?'' @ ''verbose=1'') = do_GET example_rt ''/api/health''
   \<and> do_GET example_rt (''/api/stocks'' @ ''?'' @ ''verbose=1'') = do_GET example_rt ''/api/stocks''
   \<and> plain_path ''/api/unknown-thing'' \<and> startswith ''/api/unknown-thing'' ''/api/''
   \<and> do_GET example_rt (''/api/unknown-thing'' @ ''?'' @ ''verbose=1'')
       = do_GET example_rt ''/api/unknown-thing''
   \<and> map_sum id bodies (do_GET example_rt (''/api/unknown-thing'' @ ''?'' @ ''verbose=1''))
       = Inr [not_found_response ''/api/unknown-thing'']
   \<and> field (not_found_response ''/api/unknown-thing'') ''path'' = Some (JStr ''/api/unknown-thing'')
   \<and> (urlparse (url_checks example_rt) ''/api/health'' = Inr (bare ''/api/health'')
      \<and> do_GET example_rt ''/api/health'' = do_GET example_rt ''/api/health'')"
proof -
  have s: "startswith ''/api/unknown-thing'' ''/api/''" by (simp add: startswith_def)
  have ne: "''/api/unknown-thing'' \<noteq> ''/api/health''" "''/api/unknown-thing'' \<noteq> ''/api/stocks''"
    by simp_all
  have h: "urlparse (url_checks example_rt) ''/api/health'' = Inr (bare ''/api/health'')"
    by (rule urlparse_health)
  have sh: "startswith (path (bare ''/api/health'')) ''/api/''"
    by (simp add: bare_def startswith_def)
  from query_string_ignored[of example_rt "''verbose=1''" "''/api/unknown-thing''"
        "''/api/health''" "bare ''/api/health''" "''/api/health''" "bare ''/api/health''"]
    plain_unknown s ne h sh
  show ?thesis by blast
qed


subsection \<open>The bind loop: readings of events\<close>

lemma tried_append: "tried (xs @ ys) = tried xs @ tried ys"
  by (induction xs rule: tried.induct) simp_all

lemma listened_append: "listened (xs @ ys) = listened xs @ listened ys"
  by (induction xs rule: listened.induct) simp_all

lemma resolutions_append: "resolutions (xs @ ys) = resolutions xs @ resolutions ys"
  by (induction xs rule: resolutions.induct) simp_all

lemma handled_append: "handled (xs @ ys) = handled xs @ handled ys"
  by (induction xs rule: handled.induct) simp_all

lemma printed_append: "printed (xs @ ys) = printed xs @ printed ys"
  by (induction xs rule: printed.induct) simp_all

lemma while_open_all: "list_all (\<lambda>e. \<not> is_Close e) xs \<Longrightarrow> while_open xs = xs"
  by (simp add: while_open_def list_all_iff)

lemma while_open_Close:
  "list_all (\<lambda>e. \<not> is_Close e) xs \<Longrightarrow> while_open (xs @ Close p h # ys) = xs"
  by (simp add: while_open_def list_all_iff takeWhile_append2)


subsection \<open>The constructor and \<open>serve_forever\<close>\<close>

lemma init_events:
  "snd (AlfalyzerHandler_init r seen fs c) =
     [Chdir (content_root seen),
      Print (if content_root seen = Temp_public then Serving_from_temporary Temp_public
             else Serving_from (content_root seen)),
      Handled (handle_one_request r c)]"
  by (simp add: AlfalyzerHandler_init_def content_root_def Let_def)

lemma init_state:
  "cwd (fst (AlfalyzerHandler_init r seen fs c)) = content_root seen
   \<and> (content_root seen = Temp_public \<longrightarrow>
        temp_exists (fst (AlfalyzerHandler_init r seen fs c))
        \<and> temp_index (fst (AlfalyzerHandler_init r seen fs c))
            = Some \<lparr>page_version = sys_version r, page_directory = cwd fs\<rparr>)
   \<and> (content_root seen \<noteq> Temp_public \<longrightarrow>
        temp_exists (fst (AlfalyzerHandler_init r seen fs c)) = temp_exists fs
        \<and> temp_index (fst (AlfalyzerHandler_init r seen fs c)) = temp_index fs)"
  by (simp add: AlfalyzerHandler_init_def content_root_def create_basic_files_def Let_def)

lemma serve_events:
  "tried (snd (serve_forever r fs cs)) = [] \<and>
   listened (snd (serve_forever r fs cs)) = [] \<and>
   list_all (\<lambda>e. \<not> is_Close e) (snd (serve_forever r fs cs)) \<and>
   resolutions (snd (serve_forever r fs cs)) = map (\<lambda>a. content_root (fst a)) cs \<and>
   handled (snd (serve_forever r fs cs)) = map (\<lambda>a. handle_one_request r (snd a)) cs"
proof (induction cs arbitrary: fs)
  case Nil
  show ?case by simp
next
  case (Cons a cs)
  obtain seen c where a: "a = (seen, c)" by (cases a)
  obtain fs1 ev1 where i: "AlfalyzerHandler_init r seen fs c = (fs1, ev1)" by force
  obtain fs2 ev2 where s: "serve_forever r fs1 cs = (fs2, ev2)" by force
  have e1: "ev1 = [Chdir (content_root seen),
      Print (if content_root seen = Temp_public then Serving_from_temporary Temp_public
             else Serving_from (content_root seen)),
      Handled (handle_one_request r c)]" using init_events[of r seen fs c] i by simp
  have ih: "tried ev2 = [] \<and> listened ev2 = [] \<and> list_all (\<lambda>e. \<not> is_Close e) ev2 \<and>
     resolutions ev2 = map (\<lambda>a. content_root (fst a)) cs \<and>
     handled ev2 = map (\<lambda>a. handle_one_request r (snd a)) cs"
    using Cons.IH[of fs1] s by simp
  show ?case
    using ih by (simp add: a i s e1 tried_append listened_append resolutions_append handled_append)
qed

subsection \<open>Passes through the loop body\<close>

lemma body_unavailable:
  assumes "unavailable (sockets w s)"
  shows "\<exists>ev. loop_body w fs s = (Continue, fs, ev) \<and> tried ev = [s] \<and> listened ev = []
          \<and> list_all (\<lambda>e. \<not> is_Close e) ev \<and> resolutions ev = [] \<and> handled ev = []"
proof -
  obtain port host where s: "s = (port, host)" by (cases s)
  show ?thesis
    using assms
    by (auto simp: s loop_body_def try_port_def unavailable_def outer_except_def
             split: option.splits exn.splits)
qed

lemma for_unavailable:
  assumes "list_all (\<lambda>s. unavailable (sockets w s)) xs"
  shows "\<exists>pre. for_strategies w fs (xs @ ys) =
            (fst (for_strategies w fs ys), fst (snd (for_strategies w fs ys)),
             pre @ snd (snd (for_strategies w fs ys)))
          \<and> tried pre = xs \<and> listened pre = [] \<and> list_all (\<lambda>e. \<not> is_Close e) pre
          \<and> resolutions pre = [] \<and> handled pre = []"
  using assms
proof (induction xs)
  case Nil
  have "for_strategies w fs ([] @ ys) =
            (fst (for_strategies w fs ys), fst (snd (for_strategies w fs ys)),
             [] @ snd (snd (for_strategies w fs ys)))" by simp
  then show ?case by (intro exI[of _ "[]"]) simp
next
  case (Cons x xs)
  from Cons.prems have ux: "unavailable (sockets w x)"
    and uxs: "list_all (\<lambda>s. unavailable (sockets w s)) xs" by simp_all
  from body_unavailable[OF ux, of fs] obtain ev where
    b: "loop_body w fs x = (Continue, fs, ev)" and
    e: "tried ev = [x]" "listened ev = []" "list_all (\<lambda>e. \<not> is_Close e) ev"
       "resolutions ev = []" "handled ev = []" by blast
  from Cons.IH[OF uxs] obtain pre where
    p: "for_strategies w fs (xs @ ys) =
            (fst (for_strategies w fs ys), fst (snd (for_strategies w fs ys)),
             pre @ snd (snd (for_strategies w fs ys)))" and
    q: "tried pre = xs" "listened pre = []" "list_all (\<lambda>e. \<not> is_Close e) pre"
       "resolutions pre = []" "handled pre = []" by blast
  have "for_strategies w fs ((x # xs) @ ys) =
            (fst (for_strategies w fs ys), fst (snd (for_strategies w fs ys)),
             (ev @ pre) @ snd (snd (for_strategies w fs ys)))"
    by (simp add: b p)
  moreover have "tried (ev @ pre) = x # xs" "listened (ev @ pre) = []"
    "list_all (\<lambda>e. \<not> is_Close e) (ev @ pre)" "resolutions (ev @ pre) = []"
    "handled (ev @ pre) = []"
    using e q by (simp_all add: tried_append listened_append resolutions_append handled_append)
  ultimately show ?case by blast
qed

lemma body_available:
  assumes "available (sockets w (port, host))"
  shows "loop_body w fs (port, host) =
     (let a = sockets w (port, host);
          sv = serve_forever (sys_rt w) fs (connections a);
          ev = [Print (Trying host port), Listen port host] @ active_banner port host @ snd sv
      in case serve_raises a of
           None \<Rightarrow> (Serving, fst sv, ev)
         | Some KeyboardInterrupt \<Rightarrow> (Break, fst sv, ev @ [Print Stopping, Close port host])
         | Some OSError \<Rightarrow> (Continue, fst sv, ev @ [Close port host, Print (Failed_to_bind host port)])
         | Some Other_exception \<Rightarrow> (Continue, fst sv, ev @ [Close port host, Print Unexpected_error]))"
  using assms
  by (simp add: loop_body_def try_port_def available_def outer_except_def Let_def
           split: option.splits exn.splits prod.splits)


lemma for_available:
  assumes "available (sockets w (port, host))"
  shows "for_strategies w fs ((port, host) # ys) =
     (let a = sockets w (port, host);
          sv = serve_forever (sys_rt w) fs (connections a);
          ev = [Print (Trying host port), Listen port host] @ active_banner port host @ snd sv
      in case serve_raises a of
           None \<Rightarrow> (Serving, fst sv, ev)
         | Some KeyboardInterrupt \<Rightarrow> (Break, fst sv, ev @ [Print Stopping, Close port host])
         | Some OSError \<Rightarrow>
             (fst (for_strategies w (fst sv) ys), fst (snd (for_strategies w (fst sv) ys)),
              ev @ Close port host # Print (Failed_to_bind host port)
                 # snd (snd (for_strategies w (fst sv) ys)))
         | Some Other_exception \<Rightarrow>
             (fst (for_strategies w (fst sv) ys), fst (snd (for_strategies w (fst sv) ys)),
              ev @ Close port host # Print Unexpected_error
                 # snd (snd (for_strategies w (fst sv) ys))))"
  by (simp add: body_available[OF assms] Let_def split: option.splits exn.splits prod.splits)

lemma banner_events:
  "tried (active_banner port host) = []" "listened (active_banner port host) = []"
  "list_all (\<lambda>e. \<not> is_Close e) (active_banner port host)"
  "resolutions (active_banner port host) = []" "handled (active_banner port host) = []"
  by (simp_all add: active_banner_def)

lemma body_starts_trying:
  "\<exists>t. tried (snd (snd (loop_body w fs s))) = s # t"
proof -
  obtain port host where s: "s = (port, host)" by (cases s)
  show ?thesis
    by (cases "serve_forever (sys_rt w) fs (connections (sockets w (port, host)))")
       (auto simp: s loop_body_def try_port_def outer_except_def Let_def
             split: sum.splits option.splits exn.splits bool.splits)
qed

lemma for_starts_trying:
  "\<exists>t. tried (snd (snd (for_strategies w fs (s # ss)))) = s # t"
proof -
  obtain g fs1 ev1 where b: "loop_body w fs s = (g, fs1, ev1)"
    by (cases "loop_body w fs s") auto
  from body_starts_trying[of w fs s] obtain t where t: "tried ev1 = s # t"
    by (auto simp: b)
  obtain h fs2 ev2 where r: "for_strategies w fs1 ss = (h, fs2, ev2)"
    by (cases "for_strategies w fs1 ss") auto
  show ?thesis
    by (cases g) (simp_all add: b r t tried_append)
qed

text \<open>The events of a run in which the first candidates are unavailable and the next
  one is available: what happens until the server socket is closed, and what follows.\<close>

lemma run_until_serving:
  assumes xs: "list_all (\<lambda>s. unavailable (sockets w s)) xs"
    and av: "available (sockets w (port, host))"
    and st: "strategies = xs @ (port, host) # ys"
  shows "\<exists>opened post.
      fst (main w) = opened @ post
    \<and> tried opened = xs @ [(port, host)]
    \<and> listened opened = [(port, host)]
    \<and> list_all (\<lambda>e. \<not> is_Close e) opened
    \<and> resolutions opened
        = map (\<lambda>a. content_root (fst a)) (connections (sockets w (port, host)))
    \<and> handled opened
        = map (\<lambda>a. handle_one_request (sys_rt w) (snd a)) (connections (sockets w (port, host)))
    \<and> (case serve_raises (sockets w (port, host)) of
          None \<Rightarrow> post = [] \<and> snd (main w) = Running
        | Some KeyboardInterrupt \<Rightarrow>
            post = [Print Stopping, Close port host, Print All_failed]
            \<and> snd (main w) = Exit_code 1
        | Some e \<Rightarrow>
            (\<exists>m rest last_print.
               post = Close port host # Print m # rest @ last_print
               \<and> tried [Print m] = []
               \<and> (\<forall>s ss. ys = s # ss \<longrightarrow> (\<exists>t. tried rest = s # t))))"
proof -
  let ?a = "sockets w (port, host)"
  let ?sv = "serve_forever (sys_rt w) (fs0 w) (connections ?a)"
  from for_unavailable[OF xs, of "fs0 w" "(port, host) # ys"] obtain pre where
    f: "for_strategies w (fs0 w) (xs @ (port, host) # ys) =
          (fst (for_strategies w (fs0 w) ((port, host) # ys)),
           fst (snd (for_strategies w (fs0 w) ((port, host) # ys))),
           pre @ snd (snd (for_strategies w (fs0 w) ((port, host) # ys))))"
    and p: "tried pre = xs" "listened pre = []" "list_all (\<lambda>e. \<not> is_Close e) pre"
           "resolutions pre = []" "handled pre = []" by blast
  define opened where
    "opened = [Print Banner, Print Rule] @ pre
              @ [Print (Trying host port), Listen port host] @ active_banner port host @ snd ?sv"
  have o: "tried opened = xs @ [(port, host)]" "listened opened = [(port, host)]"
    "list_all (\<lambda>e. \<not> is_Close e) opened"
    "resolutions opened = map (\<lambda>a. content_root (fst a)) (connections ?a)"
    "handled opened = map (\<lambda>a. handle_one_request (sys_rt w) (snd a)) (connections ?a)"
    using p serve_events[of "sys_rt w" "fs0 w" "connections ?a"]
    by (simp_all add: opened_def tried_append listened_append handled_append resolutions_append
          banner_events)
  let ?ev = "[Print (Trying host port), Listen port host] @ active_banner port host @ snd ?sv"
  note fa = for_available[OF av, of "fs0 w" ys, unfolded Let_def]
  show ?thesis
  proof (cases "serve_raises ?a")
    case None
    have "for_strategies w (fs0 w) ((port, host) # ys) = (Serving, fst ?sv, ?ev)"
      unfolding fa by (simp add: None)
    then have "main w = (opened @ [], Running)"
      by (simp add: main_def start_server_def st f opened_def del: for_strategies.simps)
    then show ?thesis using o None by (intro exI[of _ opened] exI[of _ "[]"]) simp
  next
    case (Some e)
    obtain g fs' ev' where r: "for_strategies w (fst ?sv) ys = (g, fs', ev')"
      by (cases "for_strategies w (fst ?sv) ys") auto
    have nx: "\<forall>s ss. ys = s # ss \<longrightarrow> (\<exists>t. tried ev' = s # t)"
    proof (intro allI impI)
      fix s ss assume "ys = s # ss"
      with for_starts_trying[of w "fst ?sv" s ss] r
      show "\<exists>t. tried ev' = s # t" by (simp del: for_strategies.simps)
    qed
    show ?thesis
    proof (cases e)
      case KeyboardInterrupt
      have "for_strategies w (fs0 w) ((port, host) # ys)
            = (Break, fst ?sv, ?ev @ [Print Stopping, Close port host])"
        unfolding fa by (simp add: Some KeyboardInterrupt)
      then have "main w = (opened @ [Print Stopping, Close port host, Print All_failed], Exit_code 1)"
        by (simp add: main_def start_server_def st f opened_def del: for_strategies.simps)
      then show ?thesis using o Some KeyboardInterrupt
        by (intro exI[of _ opened] exI[of _ "[Print Stopping, Close port host, Print All_failed]"])
           simp
    next
      case OSError
      have "for_strategies w (fs0 w) ((port, host) # ys)
            = (g, fs', ?ev @ Close port host # Print (Failed_to_bind host port) # ev')"
        unfolding fa by (simp add: Some OSError r)
      then have "\<exists>l. fst (main w)
                 = opened @ Close port host # Print (Failed_to_bind host port) # ev' @ l"
        by (cases g; cases "\<exists>x. g = Raise x")
           (auto simp add: main_def start_server_def st f opened_def split: exn.splits
                 simp del: for_strategies.simps)
      then obtain l where
        "fst (main w) = opened @ (Close port host # Print (Failed_to_bind host port) # ev' @ l)"
        by auto
      moreover have "tried [Print (Failed_to_bind host port)] = []" by simp
      ultimately show ?thesis using o Some OSError nx
        by (intro exI[of _ opened]
              exI[of _ "Close port host # Print (Failed_to_bind host port) # ev' @ l"])
           auto
    next
      case Other_exception
      have "for_strategies w (fs0 w) ((port, host) # ys)
            = (g, fs', ?ev @ Close port host # Print Unexpected_error # ev')"
        unfolding fa by (simp add: Some Other_exception r)
      then have "\<exists>l. fst (main w) = opened @ Close port host # Print Unexpected_error # ev' @ l"
        by (cases g; cases "\<exists>x. g = Raise x")
           (auto simp add: main_def start_server_def st f opened_def split: exn.splits
                 simp del: for_strategies.simps)
      then obtain l where
        "fst (main w) = opened @ (Close port host # Print Unexpected_error # ev' @ l)"
        by auto
      moreover have "tried [Print Unexpected_error] = []" by simp
      ultimately show ?thesis using o Some Other_exception nx
        by (intro exI[of _ opened]
              exI[of _ "Close port host # Print Unexpected_error # ev' @ l"])
           auto
    qed
  qed
qed


subsection \<open>The first available candidate\<close>

lemma strategies_split:
  assumes "N < length strategies"
  shows "strategies = take N strategies @ (fst (strategies ! N), snd (strategies ! N)) # drop (Suc N) strategies"
  using assms by (simp add: id_take_nth_drop[symmetric])

text \<open>A run in which the first \<open>N\<close> candidates are unavailable and the next one is
  available, read up to the closing of the server socket and as a whole.\<close>

lemma serving_run:
  assumes "N < length strategies"
    and "list_all (\<lambda>s. unavailable (sockets w s)) (take N strategies)"
    and "available (sockets w (strategies ! N))"
  shows "tried (while_open (fst (main w))) = take (Suc N) strategies"
    and "listened (while_open (fst (main w))) = [strategies ! N]"
    and "resolutions (while_open (fst (main w)))
           = map (\<lambda>a. content_root (fst a)) (connections (sockets w (strategies ! N)))"
    and "handled (while_open (fst (main w)))
           = map (\<lambda>a. handle_one_request (sys_rt w) (snd a))
               (connections (sockets w (strategies ! N)))"
    and "serve_raises (sockets w (strategies ! N)) = None
          \<or> serve_raises (sockets w (strategies ! N)) = Some KeyboardInterrupt \<Longrightarrow>
         tried (fst (main w)) = take (Suc N) strategies
         \<and> listened (fst (main w)) = [strategies ! N]
         \<and> resolutions (fst (main w))
             = map (\<lambda>a. content_root (fst a)) (connections (sockets w (strategies ! N)))"
    and "serve_raises (sockets w (strategies ! N)) = Some OSError
          \<or> serve_raises (sockets w (strategies ! N)) = Some Other_exception \<Longrightarrow>
         (\<exists>t. fst (main w)
                = while_open (fst (main w))
                  @ Close (fst (strategies ! N)) (snd (strategies ! N)) # t)
         \<and> (Suc N < length strategies \<longrightarrow>
              take (Suc (Suc N)) (tried (fst (main w))) = take (Suc (Suc N)) strategies)"
proof -
  obtain port host where s: "strategies ! N = (port, host)" by (cases "strategies ! N")
  let ?a = "sockets w (port, host)"
  let ?ys = "drop (Suc N) strategies"
  have st: "strategies = take N strategies @ (port, host) # ?ys"
    using strategies_split[OF assms(1)] by (simp add: s)
  have av: "available ?a" using assms(3) by (simp add: s)
  from run_until_serving[OF assms(2) av st] obtain opened post where
    m: "fst (main w) = opened @ post"
    and o: "tried opened = take N strategies @ [(port, host)]" "listened opened = [(port, host)]"
      "list_all (\<lambda>e. \<not> is_Close e) opened"
      "resolutions opened = map (\<lambda>a. content_root (fst a)) (connections ?a)"
      "handled opened = map (\<lambda>a. handle_one_request (sys_rt w) (snd a)) (connections ?a)"
    and c: "case serve_raises ?a of
          None \<Rightarrow> post = [] \<and> snd (main w) = Running
        | Some KeyboardInterrupt \<Rightarrow>
            post = [Print Stopping, Close port host, Print All_failed]
            \<and> snd (main w) = Exit_code 1
        | Some e \<Rightarrow>
            (\<exists>m rest last_print.
               post = Close port host # Print m # rest @ last_print
               \<and> tried [Print m] = []
               \<and> (\<forall>s ss. ?ys = s # ss \<longrightarrow> (\<exists>t. tried rest = s # t)))"
    by blast
  have tk: "take (Suc N) strategies = take N strategies @ [(port, host)]"
    using assms(1) by (simp add: take_Suc_conv_app_nth s)
  have ex: "\<exists>m rest last_print.
               post = Close port host # Print m # rest @ last_print
               \<and> tried [Print m] = []
               \<and> (\<forall>s ss. ?ys = s # ss \<longrightarrow> (\<exists>t. tried rest = s # t))"
    if "serve_raises ?a = Some OSError \<or> serve_raises ?a = Some Other_exception"
    using that c by auto
  have wo: "\<exists>q. while_open (fst (main w)) = opened @ q \<and> tried q = [] \<and> listened q = []
                \<and> resolutions q = [] \<and> handled q = []
                \<and> (serve_raises ?a = Some OSError \<or> serve_raises ?a = Some Other_exception
                     \<longrightarrow> q = [])"
  proof (cases "serve_raises ?a")
    case None
    then have "post = []" using c by simp
    then have "while_open (fst (main w)) = opened @ []"
      using while_open_all[OF o(3)] by (simp add: m)
    then show ?thesis by (intro exI[of _ "[]"]) simp
  next
    case (Some e)
    show ?thesis
    proof (cases e)
      case KeyboardInterrupt
      then have "post = [Print Stopping, Close port host, Print All_failed]"
        using c Some by simp
      then have "fst (main w) = (opened @ [Print Stopping]) @ Close port host # [Print All_failed]"
        by (simp add: m)
      moreover have "list_all (\<lambda>e. \<not> is_Close e) (opened @ [Print Stopping])"
        using o(3) by simp
      ultimately have "while_open (fst (main w)) = opened @ [Print Stopping]"
        using while_open_Close by metis
      then show ?thesis using Some KeyboardInterrupt
        by (intro exI[of _ "[Print Stopping]"]) simp
    next
      case OSError
      then obtain t where "post = Close port host # t" using ex Some by auto
      then have "while_open (fst (main w)) = opened @ []"
        using while_open_Close[OF o(3)] by (simp add: m)
      then show ?thesis by (intro exI[of _ "[]"]) simp
    next
      case Other_exception
      then obtain t where "post = Close port host # t" using ex Some by auto
      then have "while_open (fst (main w)) = opened @ []"
        using while_open_Close[OF o(3)] by (simp add: m)
      then show ?thesis by (intro exI[of _ "[]"]) simp
    qed
  qed
  then obtain q where q: "while_open (fst (main w)) = opened @ q"
    "tried q = []" "listened q = []" "resolutions q = []" "handled q = []"
    "serve_raises ?a = Some OSError \<or> serve_raises ?a = Some Other_exception \<longrightarrow> q = []"
    by blast
  show "tried (while_open (fst (main w))) = take (Suc N) strategies"
    and "listened (while_open (fst (main w))) = [strategies ! N]"
    and "resolutions (while_open (fst (main w)))
           = map (\<lambda>a. content_root (fst a)) (connections (sockets w (strategies ! N)))"
    and "handled (while_open (fst (main w)))
           = map (\<lambda>a. handle_one_request (sys_rt w) (snd a))
               (connections (sockets w (strategies ! N)))"
    using q o
    by (simp_all add: tried_append listened_append resolutions_append handled_append tk s)
  show "tried (fst (main w)) = take (Suc N) strategies
         \<and> listened (fst (main w)) = [strategies ! N]
         \<and> resolutions (fst (main w))
             = map (\<lambda>a. content_root (fst a)) (connections (sockets w (strategies ! N)))"
    if "serve_raises (sockets w (strategies ! N)) = None
          \<or> serve_raises (sockets w (strategies ! N)) = Some KeyboardInterrupt"
    using that c o by (auto simp: m tried_append listened_append resolutions_append tk s)
  show "(\<exists>t. fst (main w)
                = while_open (fst (main w))
                  @ Close (fst (strategies ! N)) (snd (strategies ! N)) # t)
         \<and> (Suc N < length strategies \<longrightarrow>
              take (Suc (Suc N)) (tried (fst (main w))) = take (Suc (Suc N)) strategies)"
    if h: "serve_raises (sockets w (strategies ! N)) = Some OSError
          \<or> serve_raises (sockets w (strategies ! N)) = Some Other_exception"
  proof -
    from h have h': "serve_raises ?a = Some OSError \<or> serve_raises ?a = Some Other_exception"
      by (simp add: s)
    from ex[OF h'] obtain msg rest last_print where
      p: "post = Close port host # Print msg # rest @ last_print"
      and t: "tried [Print msg] = []"
      and n: "\<forall>s ss. ?ys = s # ss \<longrightarrow> (\<exists>t. tried rest = s # t)" by blast
    have w: "while_open (fst (main w)) = opened" using q h' by simp
    have a: "\<exists>t. fst (main w)
                = while_open (fst (main w))
                  @ Close (fst (strategies ! N)) (snd (strategies ! N)) # t"
      unfolding w by (simp add: m p s)
    have b: "take (Suc (Suc N)) (tried (fst (main w))) = take (Suc (Suc N)) strategies"
      if l: "Suc N < length strategies"
    proof -
      have "?ys = strategies ! Suc N # drop (Suc (Suc N)) strategies"
        using l by (simp add: Cons_nth_drop_Suc)
      with n obtain u where u: "tried rest = strategies ! Suc N # u" by blast
      have tp: "tried (Print msg # rest @ last_print) = tried rest @ tried last_print"
        using t by (cases msg) (simp_all add: tried_append)
      have "tried (fst (main w))
            = take (Suc (Suc N)) strategies @ u @ tried last_print"
        using l by (simp add: m p o tried_append tp u take_Suc_conv_app_nth s)
      moreover have "length (take (Suc (Suc N)) strategies) = Suc (Suc N)"
        using l by simp
      ultimately show ?thesis by simp
    qed
    from a b show ?thesis by blast
  qed
qed

text \<open>
  C4, which says that with the first \<open>N\<close> candidates unavailable and the next one
  available the server binds to and serves from exactly that candidate. In the world
  where the server on the first pair is ended by an \<open>OSError\<close> out of
  \<open>serve_forever\<close>, the \<open>except OSError\<close> of the loop continues with the second pair,
  and the program opens a server socket there as well.
\<close>

theorem serving_error_moves_on:
  "available (sockets serve_error_world (strategies ! 0))
   \<and> listened (fst (main serve_error_world)) = [(3001, ''127.0.0.1''), (3001, ''localhost'')]
   \<and> listened (fst (main serve_error_world)) \<noteq> [strategies ! 0]
   \<and> tried (fst (main serve_error_world)) = [(3001, ''127.0.0.1''), (3001, ''localhost'')]
   \<and> snd (main serve_error_world) = Running"
  by (simp add: main_def start_server_def strategies_def loop_body_def try_port_def
        outer_except_def active_banner_def serve_error_world_def available_def)

text \<open>
  C4 as the program has it: the loop goes through the eight (port, host) pairs of
  \<open>strategies\<close> in their fixed order. If the first \<open>N\<close> of them are unavailable and the
  next one is available, then up to the moment the server socket is closed the program
  has tried exactly the first \<open>N + 1\<close> pairs, has opened a server socket on the last of
  them only, and has handled the connections that arrived there. If serving never ends,
  or ends with the operator's interrupt, this is so for the whole run: no later pair is
  ever tried. If \<open>serve_forever\<close> is ended by any other exception, the socket is closed
  and the loop goes on: the next pair, if there is one, is tried.
\<close>

theorem first_available_wins:
  assumes "N < length strategies"
    and "list_all (\<lambda>s. unavailable (sockets w s)) (take N strategies)"
    and "available (sockets w (strategies ! N))"
  shows "strategies =
           [(3001, ''127.0.0.1''), (3001, ''localhost''), (3001, ''0.0.0.0''),
            (8080, ''127.0.0.1''), (8080, ''localhost''), (8080, ''0.0.0.0''),
            (3000, ''127.0.0.1''), (5000, ''127.0.0.1'')]
       \<and> tried (while_open (fst (main w))) = take (Suc N) strategies
       \<and> listened (while_open (fst (main w))) = [strategies ! N]
       \<and> handled (while_open (fst (main w)))
           = map (\<lambda>a. handle_one_request (sys_rt w) (snd a))
               (connections (sockets w (strategies ! N)))
       \<and> (serve_raises (sockets w (strategies ! N)) = None
            \<or> serve_raises (sockets w (strategies ! N)) = Some KeyboardInterrupt \<longrightarrow>
          tried (fst (main w)) = take (Suc N) strategies
          \<and> listened (fst (main w)) = [strategies ! N])
       \<and> (serve_raises (sockets w (strategies ! N)) = Some OSError
            \<or> serve_raises (sockets w (strategies ! N)) = Some Other_exception \<longrightarrow>
          (\<exists>t. fst (main w)
                 = while_open (fst (main w))
                   @ Close (fst (strategies ! N)) (snd (strategies ! N)) # t)
          \<and> (Suc N < length strategies \<longrightarrow>
               take (Suc (Suc N)) (tried (fst (main w))) = take (Suc (Suc N)) strategies))"
proof -
  have e: "strategies =
           [(3001, ''127.0.0.1''), (3001, ''localhost''), (3001, ''0.0.0.0''),
            (8080, ''127.0.0.1''), (8080, ''localhost''), (8080, ''0.0.0.0''),
            (3000, ''127.0.0.1''), (5000, ''127.0.0.1'')]"
    by (simp add: strategies_def)
  note r = serving_run[OF assms]
  from r(5) have d: "serve_raises (sockets w (strategies ! N)) = None
            \<or> serve_raises (sockets w (strategies ! N)) = Some KeyboardInterrupt \<longrightarrow>
          tried (fst (main w)) = take (Suc N) strategies
          \<and> listened (fst (main w)) = [strategies ! N]"
    by blast
  from r(6) have x: "serve_raises (sockets w (strategies ! N)) = Some OSError
            \<or> serve_raises (sockets w (strategies ! N)) = Some Other_exception \<longrightarrow>
          (\<exists>t. fst (main w)
                 = while_open (fst (main w))
                   @ Close (fst (strategies ! N)) (snd (strategies ! N)) # t)
          \<and> (Suc N < length strategies \<longrightarrow>
               take (Suc (Suc N)) (tried (fst (main w))) = take (Suc (Suc N)) strategies)"
    by blast
  from e r(1) r(2) r(4) d x show ?thesis by (intro conjI)
qed

lemma busy_unavailable: "unavailable busy"
  by (simp add: unavailable_def busy_def)

text \<open>Two worlds: the one in which 3001 is taken everywhere and 8080 is free on
  127.0.0.1 (\<open>N = 3\<close>, serving never ends), and the one in which serving on the first
  pair ends with an \<open>OSError\<close> (\<open>N = 0\<close>).\<close>

theorem first_available_wins_witness:
  "((3::nat) < length strategies
    \<and> list_all (\<lambda>s. unavailable (sockets two_requests_world s)) (take 3 strategies)
    \<and> available (sockets two_requests_world (strategies ! 3))
    \<and> serve_raises (sockets two_requests_world (strategies ! 3)) = None
    \<and> tried (while_open (fst (main two_requests_world)))
        = [(3001, ''127.0.0.1''), (3001, ''localhost''), (3001, ''0.0.0.0''), (8080, ''127.0.0.1'')]
    \<and> listened (while_open (fst (main two_requests_world))) = [(8080, ''127.0.0.1'')]
    \<and> tried (fst (main two_requests_world))
        = [(3001, ''127.0.0.1''), (3001, ''localhost''), (3001, ''0.0.0.0''), (8080, ''127.0.0.1'')]
    \<and> listened (fst (main two_requests_world)) = [(8080, ''127.0.0.1'')])
   \<and> ((0::nat) < length strategies
    \<and> list_all (\<lambda>s. unavailable (sockets serve_error_world s)) (take 0 strategies)
    \<and> available (sockets serve_error_world (strategies ! 0))
    \<and> serve_raises (sockets serve_error_world (strategies ! 0)) = Some OSError
    \<and> Suc 0 < length strategies
    \<and> listened (while_open (fst (main serve_error_world))) = [(3001, ''127.0.0.1'')]
    \<and> take (Suc (Suc 0)) (tried (fst (main serve_error_world)))
        = [(3001, ''127.0.0.1''), (3001, ''localhost'')])"
proof -
  have h1: "(3::nat) < length strategies" by (simp add: strategies_def)
  have h2: "list_all (\<lambda>s. unavailable (sockets two_requests_world s)) (take 3 strategies)"
    by (simp add: strategies_def two_requests_world_def busy_unavailable)
  have n: "strategies ! 3 = (8080, ''127.0.0.1'')" by (simp add: strategies_def)
  have h3: "available (sockets two_requests_world (strategies ! 3))"
    by (simp add: n two_requests_world_def available_def)
  have sr: "serve_raises (sockets two_requests_world (strategies ! 3)) = None"
    by (simp add: n two_requests_world_def)
  have tk: "take (Suc 3) strategies
       = [(3001, ''127.0.0.1''), (3001, ''localhost''), (3001, ''0.0.0.0''), (8080, ''127.0.0.1'')]"
    by (simp add: strategies_def)
  have a: "(3::nat) < length strategies
    \<and> list_all (\<lambda>s. unavailable (sockets two_requests_world s)) (take 3 strategies)
    \<and> available (sockets two_requests_world (strategies ! 3))
    \<and> serve_raises (sockets two_requests_world (strategies ! 3)) = None
    \<and> tried (while_open (fst (main two_requests_world)))
        = [(3001, ''127.0.0.1''), (3001, ''localhost''), (3001, ''0.0.0.0''), (8080, ''127.0.0.1'')]
    \<and> listened (while_open (fst (main two_requests_world))) = [(8080, ''127.0.0.1'')]
    \<and> tried (fst (main two_requests_world))
        = [(3001, ''127.0.0.1''), (3001, ''localhost''), (3001, ''0.0.0.0''), (8080, ''127.0.0.1'')]
    \<and> listened (fst (main two_requests_world)) = [(8080, ''127.0.0.1'')]"
    using first_available_wins[OF h1 h2 h3] sr h1 h2 h3 unfolding tk n by blast
  have g1: "(0::nat) < length strategies" and g5: "Suc 0 < length strategies"
    by (simp_all add: strategies_def)
  have g2: "list_all (\<lambda>s. unavailable (sockets serve_error_world s)) (take 0 strategies)"
    by simp
  have n0: "strategies ! 0 = (3001, ''127.0.0.1'')" by (simp add: strategies_def)
  have g3: "available (sockets serve_error_world (strategies ! 0))"
    by (simp add: n0 serve_error_world_def available_def)
  have g4: "serve_raises (sockets serve_error_world (strategies ! 0)) = Some OSError"
    by (simp add: n0 serve_error_world_def)
  have tk2: "take (Suc (Suc 0)) strategies = [(3001, ''127.0.0.1''), (3001, ''localhost'')]"
    by (simp add: strategies_def)
  have b: "(0::nat) < length strategies
    \<and> list_all (\<lambda>s. unavailable (sockets serve_error_world s)) (take 0 strategies)
    \<and> available (sockets serve_error_world (strategies ! 0))
    \<and> serve_raises (sockets serve_error_world (strategies ! 0)) = Some OSError
    \<and> Suc 0 < length strategies
    \<and> listened (while_open (fst (main serve_error_world))) = [(3001, ''127.0.0.1'')]
    \<and> take (Suc (Suc 0)) (tried (fst (main serve_error_world)))
        = [(3001, ''127.0.0.1''), (3001, ''localhost'')]"
    using first_available_wins[OF g1 g2 g3] g1 g2 g3 g4 g5 unfolding tk2 n0 by blast
  from a b show ?thesis by (rule conjI)
qed

subsection \<open>No candidate available\<close>

text \<open>
  C5: if all eight candidates are unavailable, no server socket is opened and no
  request is handled; the last thing the process does is print the failure message
  \<open>All binding strategies failed!\<close>, and it exits with status 1.
\<close>

theorem all_unavailable_exits_1:
  assumes "list_all (\<lambda>s. unavailable (sockets w s)) strategies"
  shows "snd (main w) = Exit_code 1
       \<and> last (fst (main w)) = Print All_failed
       \<and> tried (fst (main w)) = strategies
       \<and> listened (fst (main w)) = []
       \<and> handled (fst (main w)) = []"
proof -
  from for_unavailable[OF assms, of "fs0 w" "[]"] obtain pre where
    f: "for_strategies w (fs0 w) strategies = (Continue, fs0 w, pre)"
    and p: "tried pre = strategies" "listened pre = []" "handled pre = []"
    by auto
  have m: "main w = ([Print Banner, Print Rule] @ pre @ [Print All_failed], Exit_code 1)"
    by (simp add: main_def start_server_def f)
  show ?thesis
    using p by (simp add: m tried_append listened_append handled_append)
qed

text \<open>The world in which every port is taken.\<close>

theorem all_unavailable_exits_1_witness:
  "list_all (\<lambda>s. unavailable (sockets all_busy_world s)) strategies
   \<and> snd (main all_busy_world) = Exit_code 1
   \<and> last (fst (main all_busy_world)) = Print All_failed
   \<and> listened (fst (main all_busy_world)) = []"
proof -
  have h: "list_all (\<lambda>s. unavailable (sockets all_busy_world s)) strategies"
    by (simp add: all_busy_world_def busy_unavailable list_all_iff)
  from all_unavailable_exits_1[OF h] h show ?thesis by blast
qed


subsection \<open>Runs of the concrete worlds\<close>

lemmas run_eval =
  main_def start_server_def strategies_def loop_body_def try_port_def outer_except_def
  active_banner_def AlfalyzerHandler_init_def create_basic_files_def handle_one_request_def
  busy_def example_fs_def example_rt_def

text \<open>
  C1, which says that a manual interrupt of the serving process ends it with exit
  status 0. The run of the program in the world where the first candidate is free and
  the operator presses Ctrl+C while it serves: after \<open>Server stopping...\<close> the
  \<open>break\<close> leaves the loop, the statements after the loop print
  \<open>All binding strategies failed!\<close> and call \<open>sys.exit(1)\<close>. The exit status is 1.
\<close>

theorem interrupt_exits_1:
  "main interrupted_world =
     ([Print Banner, Print Rule, Print (Trying ''127.0.0.1'' 3001), Listen 3001 ''127.0.0.1'',
       Print Server_active, Print (Local_url 3001), Print (Network_url ''127.0.0.1'' 3001),
       Print (Api_url 3001), Print (Stocks_url 3001), Print Rule, Print Ready,
       Print Press_ctrl_c, Print Stopping, Close 3001 ''127.0.0.1'', Print All_failed],
      Exit_code 1)"
  by (simp add: run_eval interrupted_world_def)

text \<open>
  C2, which says that the content root is resolved exactly once per process, at startup,
  and never again on later requests. In the world with two requests the constructor
  resolves it twice, once for each connection, and, the build having written
  \<open>dist/public\<close> in between, to two different directories; in the world with no
  request it is never resolved.
\<close>

theorem root_resolved_again:
  "resolutions (fst (main two_requests_world)) = [Temp_public, Dist_public]
   \<and> length (resolutions (fst (main two_requests_world))) \<noteq> 1
   \<and> resolutions (fst (main interrupted_world)) = []"
  by (simp add: run_eval two_requests_world_def interrupted_world_def do_GET_def do_OPTIONS_def
        urlparse_eval Let_def)

subsection \<open>The content root\<close>

lemma body_resolutions:
  assumes "loop_body w fs s = (f, fs', ev)"
  shows "length (resolutions ev) = length (handled ev)"
proof -
  obtain port host where s: "s = (port, host)" by (cases s)
  let ?sv = "serve_forever (sys_rt w) fs (connections (sockets w s))"
  have sv: "length (resolutions (snd ?sv)) = length (handled (snd ?sv))"
    using serve_events[of "sys_rt w" fs "connections (sockets w s)"] by simp
  show ?thesis
    using assms sv
    by (auto simp: s loop_body_def try_port_def outer_except_def Let_def active_banner_def
          resolutions_append handled_append
          split: sum.splits option.splits exn.splits prod.splits bool.splits if_splits)
qed

lemma for_resolutions:
  "for_strategies w fs ss = (f, fs', ev) \<Longrightarrow> length (resolutions ev) = length (handled ev)"
proof (induction ss arbitrary: fs f fs' ev)
  case Nil
  then show ?case by simp
next
  case (Cons s ss)
  obtain g fs1 ev1 where b: "loop_body w fs s = (g, fs1, ev1)"
    by (cases "loop_body w fs s") auto
  note b1 = body_resolutions[OF b]
  show ?case
  proof (cases "g = Continue")
    case True
    obtain h fs2 ev2 where r: "for_strategies w fs1 ss = (h, fs2, ev2)"
      by (cases "for_strategies w fs1 ss") auto
    note r1 = Cons.IH[OF r]
    have "ev = ev1 @ ev2"
      using Cons.prems by (simp_all add: b True r)
    then show ?thesis
      using b1 r1 by (simp add: resolutions_append handled_append)
  next
    case False
    then have "ev = ev1"
      using Cons.prems by (cases g; simp add: b)+
    then show ?thesis using b1 by simp
  qed
qed

lemma main_resolutions: "length (resolutions (fst (main w))) = length (handled (fst (main w)))"
proof -
  obtain f fs' ev where r: "for_strategies w (fs0 w) strategies = (f, fs', ev)"
    by (cases "for_strategies w (fs0 w) strategies") auto
  note e = for_resolutions[OF r]
  show ?thesis
    by (cases f; cases "\<exists>x. f = Raise x")
       (auto simp: main_def start_server_def r e resolutions_append handled_append
             split: exn.splits)
qed

lemma unavailable_resolutions:
  assumes "list_all (\<lambda>s. unavailable (sockets w s)) strategies"
  shows "resolutions (fst (main w)) = []"
proof -
  from for_unavailable[OF assms, of "fs0 w" "[]"] obtain pre where
    f: "for_strategies w (fs0 w) strategies = (Continue, fs0 w, pre)"
    and p: "resolutions pre = []"
    by auto
  have m: "main w = ([Print Banner, Print Rule] @ pre @ [Print All_failed], Exit_code 1)"
    by (simp add: main_def start_server_def f)
  show ?thesis
    using p by (simp add: m resolutions_append)
qed

text \<open>
  C2 as the program has it: the content root is resolved in the handler's constructor,
  once for every connection the server handles and at no other time. Each resolution
  tests the two directories as they are when the connection arrives and takes the
  first that exists in the priority order build output, client public; if neither
  exists it takes the temporary directory, which the constructor then creates and
  fills with its index page. The working directory becomes the directory taken.
  Read on a whole run: there is one resolution for each request handled; while the
  first available candidate serves, the resolutions are those of its connections, in
  their order; and when no candidate is available there is no resolution at all.
\<close>

theorem root_resolved_per_connection:
  "resolutions (snd (serve_forever r fs cs)) = map (\<lambda>a. content_root (fst a)) cs
   \<and> snd (AlfalyzerHandler_init r seen fs c) =
       [Chdir (content_root seen),
        Print (if content_root seen = Temp_public then Serving_from_temporary Temp_public
               else Serving_from (content_root seen)),
        Handled (handle_one_request r c)]
   \<and> cwd (fst (AlfalyzerHandler_init r seen fs c)) = content_root seen
   \<and> (content_root seen = Temp_public \<longrightarrow>
        temp_exists (fst (AlfalyzerHandler_init r seen fs c))
        \<and> temp_index (fst (AlfalyzerHandler_init r seen fs c))
            = Some \<lparr>page_version = sys_version r, page_directory = cwd fs\<rparr>)
   \<and> length (resolutions (fst (main w))) = length (handled (fst (main w)))
   \<and> (N < length strategies
        \<and> list_all (\<lambda>s. unavailable (sockets w s)) (take N strategies)
        \<and> available (sockets w (strategies ! N)) \<longrightarrow>
        resolutions (while_open (fst (main w)))
          = map (\<lambda>a. content_root (fst a)) (connections (sockets w (strategies ! N)))
        \<and> (serve_raises (sockets w (strategies ! N)) = None
             \<or> serve_raises (sockets w (strategies ! N)) = Some KeyboardInterrupt \<longrightarrow>
            resolutions (fst (main w))
              = map (\<lambda>a. content_root (fst a)) (connections (sockets w (strategies ! N)))))
   \<and> (list_all (\<lambda>s. unavailable (sockets w s)) strategies \<longrightarrow>
        resolutions (fst (main w)) = [])"
proof -
  have a: "resolutions (snd (serve_forever r fs cs)) = map (\<lambda>a. content_root (fst a)) cs"
    using serve_events[of r fs cs] by simp
  note b = init_events[of r seen fs c]
  have c: "cwd (fst (AlfalyzerHandler_init r seen fs c)) = content_root seen"
    and d: "content_root seen = Temp_public \<longrightarrow>
        temp_exists (fst (AlfalyzerHandler_init r seen fs c))
        \<and> temp_index (fst (AlfalyzerHandler_init r seen fs c))
            = Some \<lparr>page_version = sys_version r, page_directory = cwd fs\<rparr>"
    using init_state[of r seen fs c] by simp_all
  note e = main_resolutions[of w]
  have f: "N < length strategies
        \<and> list_all (\<lambda>s. unavailable (sockets w s)) (take N strategies)
        \<and> available (sockets w (strategies ! N)) \<longrightarrow>
        resolutions (while_open (fst (main w)))
          = map (\<lambda>a. content_root (fst a)) (connections (sockets w (strategies ! N)))
        \<and> (serve_raises (sockets w (strategies ! N)) = None
             \<or> serve_raises (sockets w (strategies ! N)) = Some KeyboardInterrupt \<longrightarrow>
            resolutions (fst (main w))
              = map (\<lambda>a. content_root (fst a)) (connections (sockets w (strategies ! N))))"
    using serving_run(3)[of N w] serving_run(5)[of N w] by blast
  have g: "list_all (\<lambda>s. unavailable (sockets w s)) strategies \<longrightarrow>
        resolutions (fst (main w)) = []"
    using unavailable_resolutions[of w] by blast
  from a b c d e f g show ?thesis by (intro conjI)
qed

text \<open>The world with two requests, between which the build writes \<open>dist/public\<close>,
  and the world in which every port is taken.\<close>

theorem root_resolved_per_connection_witness:
  "content_root \<lparr>dist_exists = False, client_exists = False\<rparr> = Temp_public
   \<and> temp_exists (fst (AlfalyzerHandler_init example_rt
         \<lparr>dist_exists = False, client_exists = False\<rparr> example_fs
         \<lparr>command = ''GET'', target = ''/'', at_time = ''2025-01-01T00:00:00Z''\<rparr>))
   \<and> (3::nat) < length strategies
   \<and> list_all (\<lambda>s. unavailable (sockets two_requests_world s)) (take 3 strategies)
   \<and> available (sockets two_requests_world (strategies ! 3))
   \<and> serve_raises (sockets two_requests_world (strategies ! 3)) = None
   \<and> resolutions (fst (main two_requests_world))
       = map (\<lambda>a. content_root (fst a))
           (connections (sockets two_requests_world (strategies ! 3)))
   \<and> map (\<lambda>a. content_root (fst a)) (connections (sockets two_requests_world (strategies ! 3)))
       = [Temp_public, Dist_public]
   \<and> list_all (\<lambda>s. unavailable (sockets all_busy_world s)) strategies
   \<and> resolutions (fst (main all_busy_world)) = []"
proof -
  have t: "content_root \<lparr>dist_exists = False, client_exists = False\<rparr> = Temp_public"
    by (simp add: content_root_def)
  have h1: "(3::nat) < length strategies" by (simp add: strategies_def)
  have h2: "list_all (\<lambda>s. unavailable (sockets two_requests_world s)) (take 3 strategies)"
    by (simp add: strategies_def two_requests_world_def busy_unavailable)
  have n: "strategies ! 3 = (8080, ''127.0.0.1'')" by (simp add: strategies_def)
  have h3: "available (sockets two_requests_world (strategies ! 3))"
    by (simp add: n two_requests_world_def available_def)
  have sr: "serve_raises (sockets two_requests_world (strategies ! 3)) = None"
    by (simp add: n two_requests_world_def)
  have v: "map (\<lambda>a. content_root (fst a))
             (connections (sockets two_requests_world (strategies ! 3)))
           = [Temp_public, Dist_public]"
    by (simp add: n two_requests_world_def content_root_def)
  have u: "list_all (\<lambda>s. unavailable (sockets all_busy_world s)) strategies"
    by (simp add: all_busy_world_def busy_unavailable list_all_iff)
  from root_resolved_per_connection[of example_rt example_fs "[]"
          "\<lparr>dist_exists = False, client_exists = False\<rparr>"
          "\<lparr>command = ''GET'', target = ''/'', at_time = ''2025-01-01T00:00:00Z''\<rparr>"
          two_requests_world 3]
    root_resolved_per_connection[of example_rt example_fs "[]"
          "\<lparr>dist_exists = False, client_exists = False\<rparr>"
          "\<lparr>command = ''GET'', target = ''/'', at_time = ''2025-01-01T00:00:00Z''\<rparr>"
          all_busy_world 0]
    t h1 h2 h3 sr v u
  show ?thesis by blast
qed

text \<open>The sibling path: an interrupt that arrives outside \<open>serve_forever\<close>, here
  during the test bind of the first candidate, reaches the \<open>except KeyboardInterrupt\<close>
  of the main block, and the process exits with status 0.\<close>

lemma interrupt_during_startup_exits_0:
  "main \<lparr>sys_rt = example_rt, fs0 = example_fs,
         sockets = (\<lambda>s. busy\<lparr>probe_raises := Some KeyboardInterrupt\<rparr>)\<rparr>
   = ([Print Banner, Print Rule, Print (Trying ''127.0.0.1'' 3001), Print Goodbye], Exit_code 0)"
  by (simp add: run_eval)



end
